theory Spec2Isabelle
  imports Complex_Main "HOL-Library.Word"
begin

unbundle bit_operations_syntax

section \<open>Strings, values and the execution capability\<close>

text \<open>
  A JavaScript string is a sequence of UTF-16 code units. Literals of the source are
  ASCII and are written through \<open>js\<close>.
\<close>

type_synonym jsstring = "16 word list"

definition js :: "string \<Rightarrow> jsstring" where
  "js s = map (\<lambda>c. of_nat (of_char c)) s"

text \<open>
  Values that \<open>JSON.parse\<close> produces and \<open>JSON.stringify\<close> consumes. An object is the
  list of its own properties in insertion order (an object has no two properties of the
  same name). A number is the rational it denotes.
\<close>

datatype json =
    JNull
  | JBool bool
  | JNum rat
  | JStr jsstring
  | JArr "json list"
  | JObj "(jsstring \<times> json) list"

type_synonym props = "(jsstring \<times> json) list"

text \<open>The errors that cross a function boundary: \<open>new Error(message)\<close> and the
  built-in \<open>SyntaxError\<close> (of \<open>JSON.parse\<close>) and \<open>TypeError\<close> (property read on
  \<open>null\<close>).\<close>

datatype error = Error jsstring | SyntaxError | TypeError

record KsuExecResult =
  errno :: int
  stdout :: jsstring
  stderr :: jsstring

text \<open>
  An asynchronous computation acts on the state \<open>'w\<close> of the host and either throws
  (a rejected promise, \<open>Inl\<close>) or returns (\<open>Inr\<close>).
\<close>

type_synonym ('w, 'a) io = "'w \<Rightarrow> (error + 'a) \<times> 'w"

definition io_return :: "'a \<Rightarrow> ('w, 'a) io" where
  "io_return x = (\<lambda>w. (Inr x, w))"

definition io_throw :: "error \<Rightarrow> ('w, 'a) io" where
  "io_throw e = (\<lambda>w. (Inl e, w))"

definition io_bind :: "('w, 'a) io \<Rightarrow> ('a \<Rightarrow> ('w, 'b) io) \<Rightarrow> ('w, 'b) io" where
  "io_bind m f = (\<lambda>w. case m w of (Inl e, w') \<Rightarrow> (Inl e, w') | (Inr x, w') \<Rightarrow> f x w')"

definition io_catch :: "('w, 'a) io \<Rightarrow> (error \<Rightarrow> ('w, 'a) io) \<Rightarrow> ('w, 'a) io" where
  "io_catch m h = (\<lambda>w. case m w of (Inl e, w') \<Rightarrow> h e w' | (Inr x, w') \<Rightarrow> (Inr x, w'))"

text \<open>
  \<open>ksuExec\<close>: the host's \<open>exec\<close>, a command to a promise of a result, or \<open>null\<close>.
\<close>

type_synonym 'w exec = "jsstring \<Rightarrow> ('w, KsuExecResult) io"

text \<open>
  What the module reads from its surroundings: the capability, the constants of
  \<open>./constants\<close> (\<open>PATHS.BINARY\<close>, \<open>PATHS.DAEMON_STATE\<close>, \<open>DEFAULT_CONFIG\<close>), whose
  values are not part of the sources at hand, and the platform's \<open>JSON.parse\<close>
  (\<open>None\<close> where it throws), \<open>JSON.stringify\<close> and the presence of \<open>TextEncoder\<close>.
\<close>

record 'w env =
  ksuExec :: "'w exec option"
  PATHS_BINARY :: jsstring
  PATHS_DAEMON_STATE :: "jsstring option"
  DEFAULT_CONFIG :: props
  JSON_parse :: "jsstring \<Rightarrow> json option"
  JSON_stringify :: "json \<Rightarrow> jsstring"
  TextEncoder_defined :: bool

text \<open>A capability that also records each command it is given, in order.\<close>

definition logged :: "'w exec \<Rightarrow> ('w \<times> jsstring list) exec" where
  "logged ex = (\<lambda>cmd (w, cmds). case ex cmd w of (r, w') \<Rightarrow> (r, (w', cmds @ [cmd])))"

section \<open>Payload codec\<close>

definition isLeadSurrogate :: "16 word \<Rightarrow> bool" where
  "isLeadSurrogate u \<longleftrightarrow> 0xD800 \<le> u \<and> u \<le> 0xDBFF"

definition isTrailSurrogate :: "16 word \<Rightarrow> bool" where
  "isTrailSurrogate u \<longleftrightarrow> 0xDC00 \<le> u \<and> u \<le> 0xDFFF"

text \<open>
  \<open>TextEncoder.encode\<close> of the platform: the string is read as Unicode scalar values,
  a surrogate pair as one value and a lone surrogate as U+FFFD, and each value is
  written in UTF-8.
\<close>

fun scalarValues :: "jsstring \<Rightarrow> nat list" where
  "scalarValues [] = []"
| "scalarValues [u] = [if isLeadSurrogate u \<or> isTrailSurrogate u then 0xFFFD else unat u]"
| "scalarValues (u # v # rest) =
     (if isLeadSurrogate u \<and> isTrailSurrogate v
      then (0x10000 + (unat u - 0xD800) * 0x400 + (unat v - 0xDC00)) # scalarValues rest
      else (if isLeadSurrogate u \<or> isTrailSurrogate u then 0xFFFD else unat u)
             # scalarValues (v # rest))"

definition utf8Bytes :: "nat \<Rightarrow> 8 word list" where
  "utf8Bytes c =
     (if c < 0x80 then [of_nat c]
      else if c < 0x800 then [of_nat (0xC0 + c div 0x40), of_nat (0x80 + c mod 0x40)]
      else if c < 0x10000 then
        [of_nat (0xE0 + c div 0x1000), of_nat (0x80 + c div 0x40 mod 0x40),
         of_nat (0x80 + c mod 0x40)]
      else
        [of_nat (0xF0 + c div 0x40000), of_nat (0x80 + c div 0x1000 mod 0x40),
         of_nat (0x80 + c div 0x40 mod 0x40), of_nat (0x80 + c mod 0x40)])"

definition TextEncoder_encode :: "jsstring \<Rightarrow> 8 word list" where
  "TextEncoder_encode str = concat (map utf8Bytes (scalarValues str))"

text \<open>\<open>String.prototype.isWellFormed\<close>: no lone surrogate.\<close>

fun isWellFormed :: "jsstring \<Rightarrow> bool" where
  "isWellFormed [] = True"
| "isWellFormed [u] = (\<not> isLeadSurrogate u \<and> \<not> isTrailSurrogate u)"
| "isWellFormed (u # v # rest) =
     (if isLeadSurrogate u then isTrailSurrogate v \<and> isWellFormed rest
      else \<not> isTrailSurrogate u \<and> isWellFormed (v # rest))"

text \<open>\<open>Number.prototype.toString(16)\<close> on a non-negative integer.\<close>

definition hexDigit :: "nat \<Rightarrow> 16 word" where
  "hexDigit d = (if d < 10 then of_nat (48 + d) else of_nat (87 + d))"

fun toString16 :: "nat \<Rightarrow> jsstring" where
  "toString16 n = (if n < 16 then [hexDigit n] else toString16 (n div 16) @ [hexDigit (n mod 16)])"

declare toString16.simps [simp del]

definition hexPair :: "8 word \<Rightarrow> jsstring" where
  "hexPair b = (let h = toString16 (unat b) in if length h = 1 then js ''0'' @ h else h)"

definition stringToHex :: "'w env \<Rightarrow> jsstring \<Rightarrow> jsstring" where
  "stringToHex E str =
     (let bytes = (if TextEncoder_defined E then TextEncoder_encode str
                   else map (\<lambda>u. ucast (u AND 0xff)) str)
      in foldl (\<lambda>hex b. hex @ hexPair b) [] bytes)"

section \<open>Objects, property reads and string helpers\<close>

text \<open>Setting a property keeps the position of an existing name and appends a new one.\<close>

fun setProp :: "jsstring \<Rightarrow> json \<Rightarrow> props \<Rightarrow> props" where
  "setProp k v [] = [(k, v)]"
| "setProp k v ((k', v') # ps) =
     (if k' = k then (k, v) # ps else (k', v') # setProp k v ps)"

text \<open>\<open>Number.prototype.toString()\<close> on a non-negative integer (array indices).\<close>

fun toString10 :: "nat \<Rightarrow> jsstring" where
  "toString10 n =
     (if n < 10 then [of_nat (48 + n)] else toString10 (n div 10) @ [of_nat (48 + n mod 10)])"

declare toString10.simps [simp del]

text \<open>
  The own enumerable properties that an object spread copies: those of an object, the
  indexed elements of an array, the indexed code units of a string, none of another value.
\<close>

fun ownEntries :: "json \<Rightarrow> props" where
  "ownEntries (JObj ps) = ps"
| "ownEntries (JArr vs) = map (\<lambda>i. (toString10 i, vs ! i)) [0..<length vs]"
| "ownEntries (JStr s) = map (\<lambda>i. (toString10 i, JStr [s ! i])) [0..<length s]"
| "ownEntries v = []"

definition copyDataProperties :: "props \<Rightarrow> json \<Rightarrow> props" where
  "copyDataProperties target src = foldl (\<lambda>t (k, v). setProp k v t) target (ownEntries src)"

text \<open>\<open>{ ...a, ...b }\<close>\<close>

definition objectSpread :: "json \<Rightarrow> json \<Rightarrow> props" where
  "objectSpread a b = copyDataProperties (copyDataProperties [] a) b"

text \<open>
  \<open>value.name\<close> for the names this module reads from the daemon state (none of which a
  prototype defines): \<open>TypeError\<close> on \<open>null\<close>, the own property of an object,
  \<open>undefined\<close> (\<open>None\<close>) otherwise.
\<close>

fun readProp :: "json \<Rightarrow> jsstring \<Rightarrow> error + json option" where
  "readProp JNull k = Inl TypeError"
| "readProp (JObj ps) k = Inr (map_of ps k)"
| "readProp v k = Inr None"

fun truthy :: "json \<Rightarrow> bool" where
  "truthy JNull = False"
| "truthy (JBool b) = b"
| "truthy (JNum n) = (n \<noteq> 0)"
| "truthy (JStr s) = (s \<noteq> [])"
| "truthy (JArr vs) = True"
| "truthy (JObj ps) = True"

text \<open>\<open>x || d\<close> where \<open>x\<close> may be \<open>undefined\<close>.\<close>

definition orElse :: "json option \<Rightarrow> json \<Rightarrow> json" where
  "orElse x d = (case x of None \<Rightarrow> d | Some v \<Rightarrow> if truthy v then v else d)"

text \<open>White space and line terminators: what \<open>trim\<close> strips and \<open>\s\<close> matches.\<close>

definition isWhiteSpace :: "16 word \<Rightarrow> bool" where
  "isWhiteSpace u \<longleftrightarrow>
     (0x09 \<le> u \<and> u \<le> 0x0D) \<or> u = 0x20 \<or> u = 0xA0 \<or> u = 0x1680
     \<or> (0x2000 \<le> u \<and> u \<le> 0x200A) \<or> u = 0x2028 \<or> u = 0x2029 \<or> u = 0x202F
     \<or> u = 0x205F \<or> u = 0x3000 \<or> u = 0xFEFF"

definition trim :: "jsstring \<Rightarrow> jsstring" where
  "trim s = rev (dropWhile isWhiteSpace (rev (dropWhile isWhiteSpace s)))"

text \<open>\<open>s.split(sep)\<close> for a separator of one code unit.\<close>

fun split :: "16 word \<Rightarrow> jsstring \<Rightarrow> jsstring list" where
  "split sep [] = [[]]"
| "split sep (x # xs) =
     (if x = sep then [] # split sep xs
      else (case split sep xs of [] \<Rightarrow> [[x]] | l # ls \<Rightarrow> (x # l) # ls))"

definition startsWith :: "jsstring \<Rightarrow> jsstring \<Rightarrow> bool" where
  "startsWith s p \<longleftrightarrow> take (length p) s = p"

text \<open>\<open>String.prototype.includes\<close>: the pattern occurs at some position.\<close>

fun includesJS :: "'a list \<Rightarrow> 'a list \<Rightarrow> bool" where
  "includesJS [] p = (p = [])"
| "includesJS (x # xs) p = (take (length p) (x # xs) = p \<or> includesJS xs p)"

section \<open>Config service and module rules service\<close>

definition loadConfig :: "'w env \<Rightarrow> ('w, props) io" where
  "loadConfig E =
     (case ksuExec E of
        None \<Rightarrow> io_return (DEFAULT_CONFIG E)
      | Some ex \<Rightarrow>
          (let cmd = PATHS_BINARY E @ js '' show-config''
           in io_bind
                (io_catch
                   (io_bind (ex cmd) (\<lambda>r.
                      if errno r = 0 \<and> stdout r \<noteq> [] then
                        (case JSON_parse E (stdout r) of
                           None \<Rightarrow> io_throw SyntaxError
                         | Some loaded \<Rightarrow>
                             io_return (Some (objectSpread (JObj (DEFAULT_CONFIG E)) loaded)))
                      else io_return None))
                   (\<lambda>e. io_return None))
                (\<lambda>returned. case returned of
                   Some config \<Rightarrow> io_return config
                 | None \<Rightarrow> io_return (DEFAULT_CONFIG E))))"

definition saveConfig :: "'w env \<Rightarrow> json \<Rightarrow> ('w, unit) io" where
  "saveConfig E config =
     (case ksuExec E of
        None \<Rightarrow> io_throw (Error (js ''No KSU environment''))
      | Some ex \<Rightarrow>
          (let jsonStr = JSON_stringify E config;
               hexPayload = stringToHex E jsonStr;
               cmd = PATHS_BINARY E @ js '' save-config --payload '' @ hexPayload
           in io_bind (ex cmd) (\<lambda>r.
                if errno r \<noteq> 0 then io_throw (Error (js ''Failed to save config: '' @ stderr r))
                else io_return ())))"

definition resetConfig :: "'w env \<Rightarrow> ('w, unit) io" where
  "resetConfig E =
     (case ksuExec E of
        None \<Rightarrow> io_throw (Error (js ''No KSU environment''))
      | Some ex \<Rightarrow>
          (let cmd = PATHS_BINARY E @ js '' gen-config''
           in io_bind (ex cmd) (\<lambda>r.
                if errno r \<noteq> 0 then io_throw (Error (js ''Failed to reset config: '' @ stderr r))
                else io_return ())))"

definition saveModules :: "'w env \<Rightarrow> json list \<Rightarrow> ('w, unit) io" where
  "saveModules E modules = io_return ()"

definition saveModuleRules :: "'w env \<Rightarrow> jsstring \<Rightarrow> json \<Rightarrow> ('w, unit) io" where
  \<open>saveModuleRules E moduleId rules =
     (case ksuExec E of
        None \<Rightarrow> io_throw (Error (js ''No KSU environment''))
      | Some ex \<Rightarrow>
          (let jsonStr = JSON_stringify E rules;
               hexPayload = stringToHex E jsonStr;
               cmd = PATHS_BINARY E @ js '' save-module-rules --module "'' @ moduleId
                       @ js ''" --payload '' @ hexPayload
           in io_bind (ex cmd) (\<lambda>r.
                if errno r \<noteq> 0 then io_throw (Error (js ''Failed to save rules: '' @ stderr r))
                else io_return ())))\<close>

section \<open>Status aggregator\<close>

record SystemInfo =
  kernel_si :: jsstring
  selinux_si :: jsstring
  mountBase :: json
  activeMounts :: json
  zygisksuEnforce :: "jsstring option"
  tmpfs_xattr_supported :: "json option"

definition sentinelInfo :: SystemInfo where
  "sentinelInfo = \<lparr>kernel_si = js ''-'', selinux_si = js ''-'', mountBase = JStr (js ''-''),
     activeMounts = JArr [], zygisksuEnforce = None, tmpfs_xattr_supported = None\<rparr>"

definition cmdSys :: jsstring where
  \<open>cmdSys = js ''echo "KERNEL:$(uname -r)"; echo "SELINUX:$(getenforce)"''\<close>

definition stateFile :: "'w env \<Rightarrow> jsstring" where
  "stateFile E =
     (case PATHS_DAEMON_STATE E of
        None \<Rightarrow> js ''/data/adb/meta-hybrid/run/daemon_state.json''
      | Some p \<Rightarrow> if p \<noteq> [] then p else js ''/data/adb/meta-hybrid/run/daemon_state.json'')"

definition catStateFile :: "'w env \<Rightarrow> jsstring" where
  \<open>catStateFile E = js ''cat "'' @ stateFile E @ js ''"''\<close>

text \<open>The body of the \<open>forEach\<close> over the lines of the tagged output.\<close>

definition taggedLine :: "SystemInfo \<Rightarrow> jsstring \<Rightarrow> SystemInfo" where
  "taggedLine info line =
     (if startsWith line (js ''KERNEL:'') then info\<lparr>kernel_si := trim (drop 7 line)\<rparr>
      else if startsWith line (js ''SELINUX:'') then info\<lparr>selinux_si := trim (drop 8 line)\<rparr>
      else info)"

definition parseTagged :: "KsuExecResult \<Rightarrow> SystemInfo \<Rightarrow> SystemInfo" where
  "parseTagged r info =
     (if errno r = 0 \<and> stdout r \<noteq> [] then foldl taggedLine info (split 0x0A (stdout r))
      else info)"

text \<open>
  The inner \<open>try\<close> block. It can throw at \<open>JSON.parse\<close> and at its first property read
  (of \<open>null\<close>), both before \<open>info\<close> is assigned to; afterwards \<open>state\<close> is not \<open>null\<close>.
\<close>

definition applyState :: "'w env \<Rightarrow> jsstring \<Rightarrow> SystemInfo \<Rightarrow> error + SystemInfo" where
  "applyState E outState info =
     (case JSON_parse E outState of
        None \<Rightarrow> Inl SyntaxError
      | Some state \<Rightarrow>
          (case readProp state (js ''mount_point'') of
             Inl e \<Rightarrow> Inl e
           | Inr mount_point \<Rightarrow>
               (let info1 = info\<lparr>mountBase := orElse mount_point (JStr (js ''Unknown''))\<rparr>;
                    active_mounts = (case readProp state (js ''active_mounts'') of
                                       Inr v \<Rightarrow> v | Inl e \<Rightarrow> None);
                    info2 = info1\<lparr>activeMounts := orElse active_mounts (JArr [])\<rparr>;
                    info3 = (case readProp state (js ''zygisksu_enforce'') of
                               Inr (Some z) \<Rightarrow>
                                 info2\<lparr>zygisksuEnforce :=
                                          Some (if truthy z then js ''1'' else js ''0'')\<rparr>
                             | _ \<Rightarrow> info2);
                    info4 = (case readProp state (js ''tmpfs_xattr_supported'') of
                               Inr (Some x) \<Rightarrow> info3\<lparr>tmpfs_xattr_supported := Some x\<rparr>
                             | _ \<Rightarrow> info3)
                in Inr info4)))"

definition parseState :: "'w env \<Rightarrow> KsuExecResult \<Rightarrow> SystemInfo \<Rightarrow> SystemInfo" where
  "parseState E r info =
     (if errno r = 0 \<and> stdout r \<noteq> [] then
        (case applyState E (stdout r) info of Inr info' \<Rightarrow> info' | Inl e \<Rightarrow> info)
      else info)"

definition getSystemInfo :: "'w env \<Rightarrow> ('w, SystemInfo) io" where
  "getSystemInfo E =
     (case ksuExec E of
        None \<Rightarrow> io_return sentinelInfo
      | Some ex \<Rightarrow>
          io_catch
            (io_bind (ex cmdSys) (\<lambda>rSys.
               let info = parseTagged rSys sentinelInfo
               in io_bind (ex (catStateFile E)) (\<lambda>rState.
                    io_return (parseState E rState info))))
            (\<lambda>e. io_return sentinelInfo))"

record DeviceInfo =
  model :: jsstring
  android :: jsstring
  kernel_di :: jsstring
  selinux_di :: jsstring

text \<open>
  The variables \<open>model\<close>, \<open>android\<close> and \<open>kernel\<close> are assigned inside the \<open>try\<close> block and
  read after it, so they are part of the state that the block works on.
\<close>

type_synonym deviceVars = "jsstring \<times> jsstring \<times> jsstring"

definition withVars :: "('w, 'a) io \<Rightarrow> ('w \<times> 'v, 'a) io" where
  "withVars m = (\<lambda>(w, vars). case m w of (r, w') \<Rightarrow> (r, (w', vars)))"

definition assign :: "('v \<Rightarrow> 'v) \<Rightarrow> ('w \<times> 'v, unit) io" where
  "assign f = (\<lambda>(w, vars). (Inr (), (w, f vars)))"

definition deviceQueries :: "'w exec \<Rightarrow> ('w \<times> deviceVars, unit) io" where
  "deviceQueries ex =
     io_bind (withVars (ex (js ''getprop ro.product.model''))) (\<lambda>p1.
     io_bind (assign (\<lambda>(model, android, kernel).
                if errno p1 = 0 then (trim (stdout p1), android, kernel)
                else (model, android, kernel))) (\<lambda>_.
     io_bind (withVars (ex (js ''getprop ro.build.version.release''))) (\<lambda>p2.
     io_bind (withVars (ex (js ''getprop ro.build.version.sdk''))) (\<lambda>p3.
     io_bind (assign (\<lambda>(model, android, kernel).
                if errno p2 = 0
                then (model, trim (stdout p2) @ js '' (API '' @ trim (stdout p3) @ js '')'', kernel)
                else (model, android, kernel))) (\<lambda>_.
     io_bind (withVars (ex (js ''uname -r''))) (\<lambda>p4.
     assign (\<lambda>(model, android, kernel).
                if errno p4 = 0 then (model, android, trim (stdout p4))
                else (model, android, kernel))))))))"

definition getDeviceStatus :: "'w env \<Rightarrow> ('w, DeviceInfo) io" where
  "getDeviceStatus E = (\<lambda>w.
     let vars = (js ''Device'', js ''14'', js ''Unknown'');
         block = (case ksuExec E of
                    None \<Rightarrow> io_return ()
                  | Some ex \<Rightarrow> io_catch (deviceQueries ex) (\<lambda>e. io_return ()))
     in case block (w, vars) of
          (_, (w', (model', android', kernel'))) \<Rightarrow>
            (Inr \<lparr>model = model', android = android', kernel_di = kernel',
                  selinux_di = js ''Enforcing''\<rparr>, w'))"

section \<open>Accent colour resolver\<close>

definition OVERLAY_COLOR_MAP :: "(jsstring \<times> jsstring) list" where
  "OVERLAY_COLOR_MAP =
     [(js ''com.android.theme.color.cinnamon'', js ''#9F6047''),
      (js ''com.android.theme.color.black'', js ''#3C3F41''),
      (js ''com.android.theme.color.green'', js ''#3DDC84''),
      (js ''com.android.theme.color.ocean'', js ''#009688''),
      (js ''com.android.theme.color.space'', js ''#475975''),
      (js ''com.android.theme.color.orchid'', js ''#DA70D6''),
      (js ''com.android.theme.color.purple'', js ''#9C27B0''),
      (js ''org.lineageos.overlay.accent.blue'', js ''#4285F4''),
      (js ''org.lineageos.overlay.accent.cyan'', js ''#00BCD4''),
      (js ''org.lineageos.overlay.accent.green'', js ''#4CAF50''),
      (js ''org.lineageos.overlay.accent.orange'', js ''#FF9800''),
      (js ''org.lineageos.overlay.accent.pink'', js ''#E91E63''),
      (js ''org.lineageos.overlay.accent.purple'', js ''#9C27B0''),
      (js ''org.lineageos.overlay.accent.red'', js ''#F44336''),
      (js ''org.lineageos.overlay.accent.yellow'', js ''#FFEB3B'')]"

subsection \<open>The regular expressions\<close>

text \<open>
  The three expressions of the resolver are sequences of the following items. Every
  repetition in them is over a character class, so an item is matched by choosing how
  many code units it takes; the choices are tried in the order of a backtracking
  matcher (a greedy quantifier tries the longest first, an alternation its left
  alternative first), and the first choice under which the rest of the expression matches
  wins. Literals are compared as under the flag \<open>i\<close>; the literals here are ASCII, and
  with that flag an ASCII letter matches only itself in upper or lower case.
\<close>

type_synonym cls = "16 word \<Rightarrow> bool"

datatype item =
    Bol                   \<comment> \<open>\<open>^\<close>\<close>
  | Eol                   \<comment> \<open>\<open>$\<close>\<close>
  | LitI jsstring         \<comment> \<open>a literal\<close>
  | AltI "jsstring list"  \<comment> \<open>\<open>(?:a|b)\<close> of literals\<close>
  | Opt cls               \<comment> \<open>\<open>[...]?\<close>\<close>
  | Star cls              \<comment> \<open>\<open>[...]*\<close>\<close>
  | Rep nat nat cls       \<comment> \<open>\<open>[...]{m,n}\<close>\<close>
  | Group nat nat cls     \<comment> \<open>\<open>([...]{m,n})\<close>, the capturing group\<close>

definition foldCase :: "16 word \<Rightarrow> 16 word" where
  "foldCase c = (if 0x61 \<le> c \<and> c \<le> 0x7A then c - 0x20 else c)"

definition litAt :: "jsstring \<Rightarrow> jsstring \<Rightarrow> bool" where
  "litAt l rest \<longleftrightarrow> map foldCase (take (length l) rest) = map foldCase l"

text \<open>The lengths \<open>n, n - 1, \<dots>, m\<close> that a greedy repetition tries, given the length
  of the run of class members at the position.\<close>

definition greedy :: "nat \<Rightarrow> nat \<Rightarrow> nat list" where
  "greedy m n = rev [m..<Suc n]"

definition choices :: "item \<Rightarrow> jsstring \<Rightarrow> nat \<Rightarrow> (nat \<times> jsstring option) list" where
  "choices a s i =
     (let rest = drop i s in
      case a of
        Bol \<Rightarrow> if i = 0 then [(i, None)] else []
      | Eol \<Rightarrow> if rest = [] then [(i, None)] else []
      | LitI l \<Rightarrow> if litAt l rest then [(i + length l, None)] else []
      | AltI ls \<Rightarrow> map (\<lambda>l. (i + length l, None)) (filter (\<lambda>l. litAt l rest) ls)
      | Opt c \<Rightarrow> map (\<lambda>k. (i + k, None)) (greedy 0 (min 1 (length (takeWhile c rest))))
      | Star c \<Rightarrow> map (\<lambda>k. (i + k, None)) (greedy 0 (length (takeWhile c rest)))
      | Rep m n c \<Rightarrow> map (\<lambda>k. (i + k, None)) (greedy m (min n (length (takeWhile c rest))))
      | Group m n c \<Rightarrow>
          map (\<lambda>k. (i + k, Some (take k rest))) (greedy m (min n (length (takeWhile c rest)))))"

fun firstSome :: "('a \<Rightarrow> 'b option) \<Rightarrow> 'a list \<Rightarrow> 'b option" where
  "firstSome f [] = None"
| "firstSome f (x # xs) = (case f x of Some y \<Rightarrow> Some y | None \<Rightarrow> firstSome f xs)"

text \<open>A match of the items from position \<open>i\<close>; the result is the capture of the group
  (\<open>None\<close> while no group has taken part).\<close>

primrec matchAt :: "item list \<Rightarrow> jsstring \<Rightarrow> nat \<Rightarrow> jsstring option \<Rightarrow> jsstring option option" where
  "matchAt [] s i cap = Some cap"
| "matchAt (a # as) s i cap =
     firstSome (\<lambda>(j, c). matchAt as s j (case c of None \<Rightarrow> cap | Some g \<Rightarrow> Some g))
       (choices a s i)"

text \<open>\<open>RegExp.prototype.exec\<close>: the match at the leftmost position that has one; the
  result is \<open>match[1]\<close>.\<close>

definition regexExec :: "item list \<Rightarrow> jsstring \<Rightarrow> jsstring option option" where
  "regexExec re s = firstSome (\<lambda>i. matchAt re s i None) [0..<Suc (length s)]"

definition isHexDigit :: cls where
  "isHexDigit c \<longleftrightarrow> (0x30 \<le> c \<and> c \<le> 0x39) \<or> (0x61 \<le> c \<and> c \<le> 0x66) \<or> (0x41 \<le> c \<and> c \<le> 0x46)"

definition isQuote :: cls where
  "isQuote c \<longleftrightarrow> c = 0x22 \<or> c = 0x27"

definition isHash :: cls where
  "isHash c \<longleftrightarrow> c = 0x23"

definition settingsRegex :: "item list" where
  "settingsRegex =
     [Opt isQuote,
      AltI [js ''android.theme.customization.system_palette'', js ''source_color''],
      Opt isQuote, Star isWhiteSpace, LitI (js '':''), Star isWhiteSpace,
      Opt isQuote, Opt isHash, Group 6 8 isHexDigit, Opt isQuote]"

definition wallpaperRegex :: "item list" where
  "wallpaperRegex = [LitI (js ''mMainColor=0x''), Group 8 8 isHexDigit]"

definition propRegex :: "item list" where
  "propRegex = [Bol, Opt isHash, Rep 6 8 isHexDigit, Eol]"

subsection \<open>The four sources\<close>

text \<open>\<open>match[1].length === 8 ? match[1].substring(2) : match[1]\<close>, behind a \<open>#\<close>.\<close>

definition hashColor :: "jsstring \<Rightarrow> jsstring" where
  "hashColor m = js ''#'' @ (if length m = 8 then drop 2 m else m)"

definition matchedColor :: "item list \<Rightarrow> jsstring \<Rightarrow> jsstring option" where
  "matchedColor re out =
     (if out \<noteq> [] then
        (case regexExec re out of
           Some (Some g) \<Rightarrow> if g \<noteq> [] then Some (hashColor g) else None
         | _ \<Rightarrow> None)
      else None)"

definition settingsColor :: "jsstring \<Rightarrow> jsstring option" where
  "settingsColor settingsOut = matchedColor settingsRegex settingsOut"

definition wallpaperColor :: "jsstring \<Rightarrow> jsstring option" where
  "wallpaperColor dumpOut = matchedColor wallpaperRegex dumpOut"

definition lineColor :: "jsstring \<Rightarrow> jsstring option" where
  "lineColor line =
     (if includesJS line (js ''[x]'')
      then map_option snd (find (\<lambda>(pkg, color). includesJS line pkg) OVERLAY_COLOR_MAP)
      else None)"

definition overlayColor :: "jsstring \<Rightarrow> jsstring option" where
  "overlayColor overlayOut =
     (if overlayOut \<noteq> [] then firstSome lineColor (split 0x0A overlayOut) else None)"

definition propColor :: "jsstring \<Rightarrow> jsstring option" where
  "propColor propOut =
     (if propOut \<noteq> [] then
        (let trimmed = trim propOut in
         if regexExec propRegex trimmed \<noteq> None
         then Some (if startsWith trimmed (js ''#'') then trimmed else js ''#'' @ trimmed)
         else None)
      else None)"

definition cmdSettings :: jsstring where
  "cmdSettings = js ''settings get secure theme_customization_overlay_packages''"

definition cmdWallpaper :: jsstring where
  "cmdWallpaper =
     js ''dumpsys wallpaper | grep -E 'mMainColor|mPrimaryColors|mConnection'' @ [0x27]"

definition cmdOverlay :: jsstring where
  "cmdOverlay = js ''cmd overlay list --user current''"

definition cmdThemeProp :: jsstring where
  "cmdThemeProp = js ''getprop persist.sys.theme.color''"

definition fetchSystemColor :: "'w env \<Rightarrow> ('w, jsstring option) io" where
  "fetchSystemColor E =
     (case ksuExec E of
        None \<Rightarrow> io_return None
      | Some ex \<Rightarrow>
          io_catch
            (io_bind (ex cmdSettings) (\<lambda>r1.
               case settingsColor (stdout r1) of
                 Some color \<Rightarrow> io_return (Some color)
               | None \<Rightarrow>
            io_bind (ex cmdWallpaper) (\<lambda>r2.
               case wallpaperColor (stdout r2) of
                 Some color \<Rightarrow> io_return (Some color)
               | None \<Rightarrow>
            io_bind (ex cmdOverlay) (\<lambda>r3.
               case overlayColor (stdout r3) of
                 Some color \<Rightarrow> io_return (Some color)
               | None \<Rightarrow>
            io_bind (ex cmdThemeProp) (\<lambda>r4.
               io_return (propColor (stdout r4)))))))
            (\<lambda>e. io_return None))"

section \<open>The interface, the two implementations and the binding\<close>

text \<open>
  The members of the interface \<open>AppAPI\<close> and of the object literals \<open>RealAPI\<close> and
  \<open>MockAPI\<close>, each with the number of its parameters. A call of a member that the bound
  object lacks throws a \<open>TypeError\<close>.
\<close>

type_synonym surface = "(string \<times> nat) list"

definition AppAPI :: surface where
  "AppAPI =
     [(''loadConfig'', 0), (''saveConfig'', 1), (''resetConfig'', 0), (''scanModules'', 1),
      (''saveModules'', 1), (''saveModuleRules'', 2), (''getStorageUsage'', 0),
      (''getSystemInfo'', 0), (''getDeviceStatus'', 0), (''getVersion'', 0),
      (''openLink'', 1), (''fetchSystemColor'', 0), (''reboot'', 0), (''readLogs'', 0)]"

definition RealAPI :: surface where
  "RealAPI =
     [(''loadConfig'', 0), (''saveConfig'', 1), (''resetConfig'', 0), (''scanModules'', 1),
      (''saveModules'', 1), (''readLogs'', 0), (''saveModuleRules'', 2),
      (''getStorageUsage'', 0), (''getSystemInfo'', 0), (''getDeviceStatus'', 0),
      (''getVersion'', 0), (''openLink'', 1), (''fetchSystemColor'', 0), (''reboot'', 0)]"

definition MockAPI :: surface where
  "MockAPI =
     [(''loadConfig'', 0), (''saveConfig'', 1), (''resetConfig'', 0), (''scanModules'', 1),
      (''saveModuleRules'', 2), (''getDeviceStatus'', 0), (''getVersion'', 0),
      (''getStorageUsage'', 0), (''getSystemInfo'', 0), (''rmmodHymofs'', 0)]"

definition shouldUseMock :: "bool \<Rightarrow> 'w env \<Rightarrow> bool" where
  "shouldUseMock DEV E \<longleftrightarrow> DEV \<or> ksuExec E = None"

definition API :: "bool \<Rightarrow> 'w env \<Rightarrow> surface" where
  "API DEV E = (if shouldUseMock DEV E then MockAPI else RealAPI)"

text \<open>\<open>object.name(args)\<close>: the member is called if the object has it.\<close>

definition callMember :: "surface \<Rightarrow> string \<Rightarrow> error + nat" where
  "callMember obj name = (case map_of obj name of None \<Rightarrow> Inl TypeError | Some n \<Rightarrow> Inr n)"

section \<open>Notions used in the properties\<close>

text \<open>An error is raised whose message contains the given text.\<close>

definition raisesWith :: "(error + 'a) \<times> 'w \<Rightarrow> jsstring \<Rightarrow> bool" where
  "raisesWith res text = (case fst res of Inl (Error message) \<Rightarrow> includesJS message text | _ \<Rightarrow> False)"

text \<open>The class \<open>[0-9a-f]\<close>.\<close>

definition isLowerHexDigit :: cls where
  "isLowerHexDigit c \<longleftrightarrow> (0x30 \<le> c \<and> c \<le> 0x39) \<or> (0x61 \<le> c \<and> c \<le> 0x66)"

text \<open>The bytes of \<open>utf8Bytes\<close> as numbers, and the code units of a scalar value: the
  inverses used to show that the encoder loses nothing.\<close>

definition utf8Nat :: "nat \<Rightarrow> nat list" where
  "utf8Nat c =
     (if c < 0x80 then [c]
      else if c < 0x800 then [0xC0 + c div 0x40, 0x80 + c mod 0x40]
      else if c < 0x10000 then
        [0xE0 + c div 0x1000, 0x80 + c div 0x40 mod 0x40, 0x80 + c mod 0x40]
      else
        [0xF0 + c div 0x40000, 0x80 + c div 0x1000 mod 0x40,
         0x80 + c div 0x40 mod 0x40, 0x80 + c mod 0x40])"

definition fromScalar :: "nat \<Rightarrow> jsstring" where
  "fromScalar c =
     (if c < 0x10000 then [of_nat c]
      else [of_nat (0xD800 + (c - 0x10000) div 0x400), of_nat (0xDC00 + (c - 0x10000) mod 0x400)])"

section \<open>Concrete environments\<close>

text \<open>A host on which every command exits with code 1 and \<open>disk full\<close> on its error stream.\<close>

definition diskFull :: "unit env" where
  "diskFull = \<lparr>ksuExec = Some (\<lambda>cmd w. (Inr \<lparr>errno = 1, stdout = [], stderr = js ''disk full''\<rparr>, w)),
     PATHS_BINARY = js ''/data/adb/modules/meta-hybrid/meta-hybrid'',
     PATHS_DAEMON_STATE = None, DEFAULT_CONFIG = [],
     JSON_parse = (\<lambda>s. None), JSON_stringify = (\<lambda>v. js ''{}''),
     TextEncoder_defined = True\<rparr>"

text \<open>A host that answers the commands of a table, and any other command with exit
  code 127; \<open>Inl\<close> in the table is a call that is rejected.\<close>

definition scripted :: "(jsstring \<times> (error + KsuExecResult)) list \<Rightarrow> 'w exec" where
  "scripted table = (\<lambda>cmd w.
     (case map_of table cmd of
        Some r \<Rightarrow> r
      | None \<Rightarrow> Inr \<lparr>errno = 127, stdout = [], stderr = js ''not found''\<rparr>, w))"

text \<open>Defaults for the environments below (the repository's own are not at hand).\<close>

definition sampleDefaults :: props where
  "sampleDefaults = [(js ''moduledir'', JStr (js ''/data/adb/modules'')),
                     (js ''mountsource'', JStr (js ''KSU'')),
                     (js ''disable_umount'', JBool False)]"

text \<open>An environment over a host; \<open>JSON.parse\<close> is given by the table of the texts it
  accepts, and throws on every other text.\<close>

definition hostEnv :: "'w exec \<Rightarrow> (jsstring \<times> json) list \<Rightarrow> 'w env" where
  "hostEnv ex parses = \<lparr>ksuExec = Some ex,
     PATHS_BINARY = js ''/data/adb/modules/meta-hybrid/meta-hybrid'',
     PATHS_DAEMON_STATE = None, DEFAULT_CONFIG = sampleDefaults,
     JSON_parse = map_of parses, JSON_stringify = (\<lambda>v. js ''{}''),
     TextEncoder_defined = True\<rparr>"

text \<open>A host whose \<open>show-config\<close> prints a usage message, and one whose \<open>show-config\<close>
  prints a record with the one field \<open>mountsource\<close>.\<close>

definition garbled :: "unit env" where
  "garbled = hostEnv (scripted [(js ''/data/adb/modules/meta-hybrid/meta-hybrid show-config'',
                Inr \<lparr>errno = 0, stdout = js ''Usage: meta-hybrid'', stderr = []\<rparr>)]) []"

definition partialConfig :: "unit env" where
  \<open>partialConfig = hostEnv (scripted [(js ''/data/adb/modules/meta-hybrid/meta-hybrid show-config'',
                Inr \<lparr>errno = 0, stdout = js ''{"mountsource":"APatch"}'', stderr = []\<rparr>)])
       [(js ''{"mountsource":"APatch"}'', JObj [(js ''mountsource'', JStr (js ''APatch''))])]\<close>

text \<open>A device with no theming setting, no wallpaper colour and no enabled colour overlay,
  whose theme-colour property holds an ARGB value.\<close>

definition argbTheme :: "unit env" where
  "argbTheme = hostEnv (scripted
     [(cmdSettings, Inr \<lparr>errno = 0, stdout = js ''null'' @ [0x0A], stderr = []\<rparr>),
      (cmdWallpaper, Inr \<lparr>errno = 1, stdout = [], stderr = []\<rparr>),
      (cmdOverlay, Inr \<lparr>errno = 0, stdout = js ''[ ] com.android.theme.color.green'' @ [0x0A],
                        stderr = []\<rparr>),
      (cmdThemeProp, Inr \<lparr>errno = 0, stdout = js ''AABBCCDD'' @ [0x0A], stderr = []\<rparr>)]) []"

text \<open>The host of \<open>garbled\<close> on a platform without \<open>TextEncoder\<close>.\<close>

definition noTextEncoder :: "unit env" where
  "noTextEncoder = garbled\<lparr>TextEncoder_defined := False\<rparr>"

text \<open>Two devices behind a recording capability, both without a theming setting: on the
  first the wallpaper has a main colour and the green overlay is enabled; on the second
  the wallpaper has none, the black overlay is disabled and the green one enabled.\<close>

definition wallpaperFirst :: "(unit \<times> jsstring list) env" where
  "wallpaperFirst = hostEnv (logged (scripted
     [(cmdSettings, Inr \<lparr>errno = 0, stdout = js ''null'' @ [0x0A], stderr = []\<rparr>),
      (cmdWallpaper, Inr \<lparr>errno = 0, stdout = js ''  mMainColor=0xff112233'' @ [0x0A],
                          stderr = []\<rparr>),
      (cmdOverlay, Inr \<lparr>errno = 0, stdout = js ''[x] com.android.theme.color.green'' @ [0x0A],
                        stderr = []\<rparr>),
      (cmdThemeProp, Inr \<lparr>errno = 0, stdout = [0x0A], stderr = []\<rparr>)])) []"

definition overlayOnly :: "(unit \<times> jsstring list) env" where
  "overlayOnly = hostEnv (logged (scripted
     [(cmdSettings, Inr \<lparr>errno = 0, stdout = js ''null'' @ [0x0A], stderr = []\<rparr>),
      (cmdWallpaper, Inr \<lparr>errno = 1, stdout = [], stderr = []\<rparr>),
      (cmdOverlay, Inr \<lparr>errno = 0,
         stdout = js ''[ ] com.android.theme.color.black'' @ [0x0A]
                  @ js ''[x] com.android.theme.color.green'' @ [0x0A], stderr = []\<rparr>),
      (cmdThemeProp, Inr \<lparr>errno = 0, stdout = js ''#112233'' @ [0x0A], stderr = []\<rparr>)])) []"

text \<open>A daemon state file and the value it parses to.\<close>

definition stateJson :: jsstring where
  \<open>stateJson = js ''{"mount_point":"/mnt/hybrid","active_mounts":["system"]}''\<close>

definition stateValue :: json where
  "stateValue = JObj [(js ''mount_point'', JStr (js ''/mnt/hybrid'')),
                      (js ''active_mounts'', JArr [JStr (js ''system'')])]"

text \<open>Three devices behind a recording capability: on the first the tagged command exits
  with code 1 and the state file is read; on the second the call of the tagged command is
  rejected, and the state file could be read; on the third the tagged command succeeds and
  the state file is missing.\<close>

definition stateOnly :: "(unit \<times> jsstring list) env" where
  \<open>stateOnly = hostEnv (logged (scripted
     [(cmdSys, Inr \<lparr>errno = 1, stdout = [], stderr = js ''uname: not found''\<rparr>),
      (js ''cat "/data/adb/meta-hybrid/run/daemon_state.json"'',
       Inr \<lparr>errno = 0, stdout = stateJson, stderr = []\<rparr>)]))
     [(stateJson, stateValue)]\<close>

definition taggedRejected :: "(unit \<times> jsstring list) env" where
  \<open>taggedRejected = hostEnv (logged (scripted
     [(cmdSys, Inl (Error (js ''exec failed''))),
      (js ''cat "/data/adb/meta-hybrid/run/daemon_state.json"'',
       Inr \<lparr>errno = 0, stdout = stateJson, stderr = []\<rparr>)]))
     [(stateJson, stateValue)]\<close>

definition taggedOnly :: "(unit \<times> jsstring list) env" where
  \<open>taggedOnly = hostEnv (logged (scripted
     [(cmdSys, Inr \<lparr>errno = 0,
         stdout = js ''KERNEL:6.1.0-android14'' @ [0x0A] @ js ''SELINUX:Enforcing'' @ [0x0A],
         stderr = []\<rparr>),
      (js ''cat "/data/adb/meta-hybrid/run/daemon_state.json"'',
       Inr \<lparr>errno = 1, stdout = [], stderr = js ''No such file or directory''\<rparr>)]))
     []\<close>

text \<open>Two devices behind a recording capability that answer the release, SDK and kernel
  queries; the call of the model query is rejected on the first and exits with code 1 on
  the second.\<close>

definition modelRejected :: "(unit \<times> jsstring list) env" where
  "modelRejected = hostEnv (logged (scripted
     [(js ''getprop ro.product.model'', Inl (Error (js ''exec failed''))),
      (js ''getprop ro.build.version.release'', Inr \<lparr>errno = 0, stdout = js ''14'' @ [0x0A], stderr = []\<rparr>),
      (js ''getprop ro.build.version.sdk'', Inr \<lparr>errno = 0, stdout = js ''34'' @ [0x0A], stderr = []\<rparr>),
      (js ''uname -r'', Inr \<lparr>errno = 0, stdout = js ''6.1.0-android14'' @ [0x0A], stderr = []\<rparr>)])) []"

definition modelFailed :: "(unit \<times> jsstring list) env" where
  "modelFailed = hostEnv (logged (scripted
     [(js ''getprop ro.product.model'', Inr \<lparr>errno = 1, stdout = [], stderr = js ''getprop: not found''\<rparr>),
      (js ''getprop ro.build.version.release'', Inr \<lparr>errno = 0, stdout = js ''14'' @ [0x0A], stderr = []\<rparr>),
      (js ''getprop ro.build.version.sdk'', Inr \<lparr>errno = 0, stdout = js ''34'' @ [0x0A], stderr = []\<rparr>),
      (js ''uname -r'', Inr \<lparr>errno = 0, stdout = js ''6.1.0-android14'' @ [0x0A], stderr = []\<rparr>)])) []"

text \<open>A device whose SDK query alone exits with code 1 and prints nothing.\<close>

definition sdkFailed :: "(unit \<times> jsstring list) env" where
  "sdkFailed = hostEnv (logged (scripted
     [(js ''getprop ro.product.model'', Inr \<lparr>errno = 0, stdout = js ''Pixel 8'' @ [0x0A], stderr = []\<rparr>),
      (js ''getprop ro.build.version.release'', Inr \<lparr>errno = 0, stdout = js ''14'' @ [0x0A], stderr = []\<rparr>),
      (js ''getprop ro.build.version.sdk'', Inr \<lparr>errno = 1, stdout = [], stderr = js ''getprop: failed''\<rparr>),
      (js ''uname -r'', Inr \<lparr>errno = 0, stdout = js ''6.1.0-android14'' @ [0x0A], stderr = []\<rparr>)])) []"

section \<open>Properties of the write operations\<close>

lemma includesJS_Nil [simp]: "includesJS xs []"
  by (induction xs) simp_all

lemma includesJS_append: "includesJS (a @ s @ b) s"
proof (induction a)
  case Nil
  show ?case by (cases s) simp_all
next
  case (Cons x a)
  then show ?case by simp
qed

lemma includesJS_suffix: "includesJS (a @ s) s"
  using includesJS_append [of a s "[]"] by simp

text \<open>
  C10. For every list of modules, \<open>saveModules\<close> of the real implementation returns
  without an error and leaves the host as it was, with or without the capability; given a
  capability that records its commands, none is recorded. The other write operations
  raise an error when the capability is absent.
\<close>

theorem saveModules_discards:
  "saveModules E modules w = (Inr (), w)
   \<and> saveModules (L\<lparr>ksuExec := Some (logged ex)\<rparr>) modules (w0, []) = (Inr (), (w0, []))
   \<and> saveModules (E\<lparr>ksuExec := None\<rparr>) modules w = (Inr (), w)
   \<and> fst (saveConfig (E\<lparr>ksuExec := None\<rparr>) config w) = Inl (Error (js ''No KSU environment''))
   \<and> fst (resetConfig (E\<lparr>ksuExec := None\<rparr>) w) = Inl (Error (js ''No KSU environment''))
   \<and> fst (saveModuleRules (E\<lparr>ksuExec := None\<rparr>) moduleId rules w)
       = Inl (Error (js ''No KSU environment''))"
  by (simp add: saveModules_def saveConfig_def resetConfig_def saveModuleRules_def
      io_return_def io_throw_def)

text \<open>The same on a host that answers every command, on one that records its commands and
  without a capability.\<close>

theorem saveModules_discards_witness:
  "saveModules diskFull [JObj []] () = (Inr (), ())
   \<and> saveModules (hostEnv (logged (scripted [])) []) [JObj []] ((), []) = (Inr (), ((), []))
   \<and> fst (saveModules (diskFull\<lparr>ksuExec := None\<rparr>) [JObj []] ()) = Inr ()
   \<and> fst (saveConfig (diskFull\<lparr>ksuExec := None\<rparr>) (JObj []) ())
       = Inl (Error (js ''No KSU environment''))"
  using saveModules_discards [where E = diskFull and modules = "[JObj []]" and w = "()"
      and L = "hostEnv (logged (scripted [])) []" and ex = "scripted []" and ?w0.0 = "()"
      and config = "JObj []"]
  by (simp add: hostEnv_def)

text \<open>
  C1. \<open>saveConfig\<close>, \<open>resetConfig\<close> and \<open>saveModuleRules\<close> raise an error when the
  capability is absent, for every configuration record, module id and rule set; and when
  the command they issue exits with a non-zero code, they raise an error whose message is
  the operation's prefix followed by the remote error stream, so it contains that text.
\<close>

theorem writes_raise:
  \<open>(\<exists>e. fst (saveConfig (E\<lparr>ksuExec := None\<rparr>) config w) = Inl e)
   \<and> (\<exists>e. fst (resetConfig (E\<lparr>ksuExec := None\<rparr>) w) = Inl e)
   \<and> (\<exists>e. fst (saveModuleRules (E\<lparr>ksuExec := None\<rparr>) moduleId rules w) = Inl e)
   \<and> (\<forall>ex r w'. ksuExec E = Some ex \<and> errno r \<noteq> 0 \<longrightarrow>
        (ex (PATHS_BINARY E @ js '' save-config --payload ''
               @ stringToHex E (JSON_stringify E config)) w = (Inr r, w')
           \<longrightarrow> saveConfig E config w = (Inl (Error (js ''Failed to save config: '' @ stderr r)), w')
               \<and> raisesWith (saveConfig E config w) (stderr r))
      \<and> (ex (PATHS_BINARY E @ js '' gen-config'') w = (Inr r, w')
           \<longrightarrow> resetConfig E w = (Inl (Error (js ''Failed to reset config: '' @ stderr r)), w')
               \<and> raisesWith (resetConfig E w) (stderr r))
      \<and> (ex (PATHS_BINARY E @ js '' save-module-rules --module "'' @ moduleId
               @ js ''" --payload '' @ stringToHex E (JSON_stringify E rules)) w = (Inr r, w')
           \<longrightarrow> saveModuleRules E moduleId rules w
                 = (Inl (Error (js ''Failed to save rules: '' @ stderr r)), w')
               \<and> raisesWith (saveModuleRules E moduleId rules w) (stderr r)))\<close>
  by (auto simp add: saveConfig_def resetConfig_def saveModuleRules_def io_bind_def
      io_return_def io_throw_def raisesWith_def includesJS_suffix Let_def)

text \<open>The scenario of the rule save that meets a full disk, and the same host for the
  two configuration writes.\<close>

theorem writes_raise_witness:
  "saveModuleRules diskFull (js ''mod'') (JObj []) ()
     = (Inl (Error (js ''Failed to save rules: disk full'')), ())
   \<and> raisesWith (saveModuleRules diskFull (js ''mod'') (JObj []) ()) (js ''disk full'')
   \<and> raisesWith (saveConfig diskFull (JObj []) ()) (js ''disk full'')
   \<and> raisesWith (resetConfig diskFull ()) (js ''disk full'')"
proof -
  define r where "r = \<lparr>errno = 1, stdout = [], stderr = js ''disk full''\<rparr>"
  define ex :: "unit exec" where "ex = (\<lambda>cmd w. (Inr r, w))"
  have hyp: "ksuExec diskFull = Some ex \<and> errno r \<noteq> 0"
    by (simp add: diskFull_def ex_def r_def)
  have answer: "ex cmd () = (Inr r, ())" for cmd
    by (simp add: ex_def)
  note all = writes_raise [of diskFull "JObj []" "()" "js ''mod''" "JObj []",
      THEN conjunct2, THEN conjunct2, THEN conjunct2, rule_format, OF hyp]
  have sr: "stderr r = js ''disk full''"
    by (simp add: r_def)
  have jj: "js ''Failed to save rules: '' @ js ''disk full'' = js ''Failed to save rules: disk full''"
    by (simp add: js_def)
  show ?thesis
    using all [THEN conjunct1, rule_format, OF answer]
      all [THEN conjunct2, THEN conjunct1, rule_format, OF answer]
      all [THEN conjunct2, THEN conjunct2, rule_format, OF answer]
    unfolding sr jj by blast
qed

section \<open>Properties of the payload codec\<close>

lemma toString16_byte:
  "n < 256 \<Longrightarrow> toString16 n = (if n < 16 then [hexDigit n] else [hexDigit (n div 16), hexDigit (n mod 16)])"
  by (subst toString16.simps, subst toString16.simps [of "n div 16"]) auto

lemma unat_byte: "unat (b :: 8 word) < 256"
  using unsigned_less [of b, where ?'a = nat] by simp

lemma unat_unit: "unat (u :: 16 word) < 65536"
  using unsigned_less [of u, where ?'a = nat] by simp

lemma hexPair_digits: "hexPair b = [hexDigit (unat b div 16), hexDigit (unat b mod 16)]"
  using unat_byte [of b]
  by (simp add: hexPair_def toString16_byte Let_def js_def hexDigit_def)

lemma unat_hexDigit: "d < 16 \<Longrightarrow> unat (hexDigit d) = (if d < 10 then 48 + d else 87 + d)"
  by (simp add: hexDigit_def unat_of_nat del: of_nat_add)

lemma hexDigit_inj: "a < 16 \<Longrightarrow> b < 16 \<Longrightarrow> hexDigit a = hexDigit b \<Longrightarrow> a = b"
proof -
  assume a: "a < 16" and b: "b < 16" and "hexDigit a = hexDigit b"
  then have "unat (hexDigit a) = unat (hexDigit b)" by simp
  with a b show "a = b"
    by (simp add: unat_hexDigit split: if_splits)
qed

lemma hexPair_inj: "hexPair a = hexPair b \<Longrightarrow> a = b"
proof -
  assume "hexPair a = hexPair b"
  then have "hexDigit (unat a div 16) = hexDigit (unat b div 16)"
    and "hexDigit (unat a mod 16) = hexDigit (unat b mod 16)"
    by (simp_all add: hexPair_digits)
  moreover have "unat a div 16 < 16" "unat b div 16 < 16"
    using unat_byte [of a] unat_byte [of b] by simp_all
  ultimately have "unat a div 16 = unat b div 16" and "unat a mod 16 = unat b mod 16"
    by (simp_all add: hexDigit_inj)
  then have "unat a = unat b"
    by (metis div_mult_mod_eq)
  then show "a = b"
    by (simp add: word_unat_eq_iff)
qed

lemma foldl_hexPair:
  "foldl (\<lambda>hex b. hex @ hexPair b) acc bytes = acc @ concat (map hexPair bytes)"
  by (induction bytes arbitrary: acc) simp_all

lemma length_hex: "length (concat (map hexPair bytes)) = 2 * length bytes"
  by (induction bytes) (simp_all add: hexPair_digits)

lemma length_hexPair: "length (hexPair b) = 2"
  by (simp add: hexPair_digits)

lemma concat_hexPair_inj:
  "concat (map hexPair xs) = concat (map hexPair ys) \<Longrightarrow> xs = ys"
proof (induction xs arbitrary: ys)
  case Nil
  then show ?case by (cases ys) (simp_all add: hexPair_digits)
next
  case (Cons x xs)
  show ?case
  proof (cases ys)
    case Nil
    with Cons.prems show ?thesis by (simp add: hexPair_digits)
  next
    case (Cons y ys')
    with Cons.prems have "hexPair x @ concat (map hexPair xs) = hexPair y @ concat (map hexPair ys')"
      by simp
    then have "hexPair x = hexPair y" and "concat (map hexPair xs) = concat (map hexPair ys')"
      by (simp_all add: length_hexPair)
    then show ?thesis
      using Cons.IH [of ys'] Cons by (simp add: hexPair_inj)
  qed
qed

lemma unat_byte_of_nat: "n < 256 \<Longrightarrow> unat (of_nat n :: 8 word) = n"
  by (simp add: unat_of_nat)

lemma map_unat_utf8Bytes: "c < 0x110000 \<Longrightarrow> map unat (utf8Bytes c) = utf8Nat c"
proof -
  assume c: "c < 0x110000"
  have m: "c mod 0x40 < 0x40" "c div 0x40 mod 0x40 < 0x40" "c div 0x1000 mod 0x40 < 0x40"
    by simp_all
  consider "c < 0x80" | "0x80 \<le> c" "c < 0x800" | "0x800 \<le> c" "c < 0x10000" | "0x10000 \<le> c"
    by linarith
  then show ?thesis
  proof cases
    case 1
    then show ?thesis
      by (simp add: utf8Bytes_def utf8Nat_def unat_byte_of_nat)
  next
    case 2
    then have "0xC0 + c div 0x40 < 256" by simp
    with 2 m show ?thesis
      by (simp add: utf8Bytes_def utf8Nat_def unat_byte_of_nat del: of_nat_add)
  next
    case 3
    then have "0xE0 + c div 0x1000 < 256" by simp
    with 3 m show ?thesis
      by (simp add: utf8Bytes_def utf8Nat_def unat_byte_of_nat del: of_nat_add)
  next
    case 4
    with c have "0xF0 + c div 0x40000 < 256" by simp
    with 4 m show ?thesis
      by (simp add: utf8Bytes_def utf8Nat_def unat_byte_of_nat del: of_nat_add)
  qed
qed

lemma same_digits_64:
  fixes c d :: nat
  assumes "c div 64 = d div 64" and "c mod 64 = d mod 64"
  shows "c = d"
  using assms by (metis div_mult_mod_eq)

lemma same_digits_4096:
  fixes c d :: nat
  assumes "c div 4096 = d div 4096" and "c div 64 mod 64 = d div 64 mod 64"
    and "c mod 64 = d mod 64"
  shows "c = d"
proof -
  have "n div 64 div 64 = n div 4096" for n :: nat
    by (simp add: div_mult2_eq [symmetric])
  with assms(1) have "c div 64 div 64 = d div 64 div 64"
    by simp
  from this assms(2) have "c div 64 = d div 64"
    by (rule same_digits_64)
  from this assms(3) show ?thesis
    by (rule same_digits_64)
qed

lemma same_digits_262144:
  fixes c d :: nat
  assumes "c div 262144 = d div 262144" and "c div 4096 mod 64 = d div 4096 mod 64"
    and "c div 64 mod 64 = d div 64 mod 64" and "c mod 64 = d mod 64"
  shows "c = d"
proof -
  have "n div 4096 div 64 = n div 262144" for n :: nat
    by (simp add: div_mult2_eq [symmetric])
  with assms(1) have "c div 4096 div 64 = d div 4096 div 64"
    by simp
  from this assms(2) have "c div 4096 = d div 4096"
    by (rule same_digits_64)
  from this assms(3,4) show ?thesis
    by (rule same_digits_4096)
qed

lemma utf8Nat_prefix_free:
  "utf8Nat c @ xs = utf8Nat d @ ys \<Longrightarrow> c = d"
  by (auto simp add: utf8Nat_def split: if_splits
      intro: same_digits_64 same_digits_4096 same_digits_262144)

lemma utf8Bytes_prefix_free:
  assumes "c < 0x110000" and "d < 0x110000" and "utf8Bytes c @ xs = utf8Bytes d @ ys"
  shows "c = d \<and> xs = ys"
proof -
  from assms(3) have "map unat (utf8Bytes c @ xs) = map unat (utf8Bytes d @ ys)"
    by simp
  then have "map unat (utf8Bytes c) @ map unat xs = map unat (utf8Bytes d) @ map unat ys"
    by simp
  then have "utf8Nat c @ map unat xs = utf8Nat d @ map unat ys"
    using assms(1,2) by (simp add: map_unat_utf8Bytes)
  then have "c = d"
    by (rule utf8Nat_prefix_free)
  with assms(3) show ?thesis by simp
qed

lemma utf8Bytes_nonempty: "utf8Bytes c \<noteq> []"
  by (simp add: utf8Bytes_def)

lemma concat_utf8Bytes_inj:
  assumes "\<forall>c \<in> set cs. c < 0x110000" and "\<forall>d \<in> set ds. d < 0x110000"
    and "concat (map utf8Bytes cs) = concat (map utf8Bytes ds)"
  shows "cs = ds"
  using assms
proof (induction cs arbitrary: ds)
  case Nil
  then show ?case by (cases ds) (simp_all add: utf8Bytes_nonempty)
next
  case (Cons c cs)
  show ?case
  proof (cases ds)
    case Nil
    with Cons.prems show ?thesis by (simp add: utf8Bytes_nonempty)
  next
    case (Cons d ds')
    with Cons.prems have "utf8Bytes c @ concat (map utf8Bytes cs)
        = utf8Bytes d @ concat (map utf8Bytes ds')" and "c < 0x110000" and "d < 0x110000"
      by simp_all
    then have "c = d \<and> concat (map utf8Bytes cs) = concat (map utf8Bytes ds')"
      by (rule utf8Bytes_prefix_free [rotated 2])
    then show ?thesis
      using Cons.IH [of ds'] Cons.prems(1,2) Cons by simp
  qed
qed

lemma isLeadSurrogate_unat: "isLeadSurrogate u \<longleftrightarrow> 0xD800 \<le> unat u \<and> unat u \<le> 0xDBFF"
  by (simp add: isLeadSurrogate_def word_le_nat_alt)

lemma isTrailSurrogate_unat: "isTrailSurrogate u \<longleftrightarrow> 0xDC00 \<le> unat u \<and> unat u \<le> 0xDFFF"
  by (simp add: isTrailSurrogate_def word_le_nat_alt)

lemma scalarValues_bound: "c \<in> set (scalarValues s) \<Longrightarrow> c < 0x110000"
proof (induction s arbitrary: c rule: scalarValues.induct)
  case 1
  then show ?case by simp
next
  case (2 u)
  then show ?case using unat_unit [of u] by (simp split: if_splits)
next
  case (3 u v rest)
  show ?case
  proof (cases "isLeadSurrogate u \<and> isTrailSurrogate v")
    case True
    then have "(unat u - 0xD800) * 0x400 \<le> 0x3FF * 0x400" and "unat v - 0xDC00 \<le> 0x3FF"
      by (auto simp add: isLeadSurrogate_unat isTrailSurrogate_unat)
    then have "0x10000 + (unat u - 0xD800) * 0x400 + (unat v - 0xDC00) < 0x110000"
      by simp
    with True 3 show ?thesis by auto
  next
    case False
    with 3 show ?thesis using unat_unit [of u] by (auto split: if_splits)
  qed
qed

lemma unit_of_unat: "(of_nat (unat u) :: 16 word) = u"
  by simp

lemma fromScalar_scalarValues:
  "isWellFormed s \<Longrightarrow> concat (map fromScalar (scalarValues s)) = s"
proof (induction s rule: isWellFormed.induct)
  case 1
  show ?case by simp
next
  case (2 u)
  then show ?case using unat_unit [of u] by (simp add: fromScalar_def)
next
  case (3 u v rest)
  show ?case
  proof (cases "isLeadSurrogate u")
    case True
    with 3 have v: "isTrailSurrogate v" and wf: "isWellFormed rest" by simp_all
    define hi where "hi = unat u - 0xD800"
    define lo where "lo = unat v - 0xDC00"
    have hi: "unat u = 0xD800 + hi" and lo: "unat v = 0xDC00 + lo" and "lo < 0x400"
      using True v by (auto simp add: hi_def lo_def isLeadSurrogate_unat isTrailSurrogate_unat)
    then have "fromScalar (0x10000 + hi * 0x400 + lo) = [of_nat (unat u), of_nat (unat v)]"
      by (simp add: fromScalar_def del: of_nat_add of_nat_mult)
    then show ?thesis
      using True v 3 wf by (simp add: hi_def lo_def)
  next
    case False
    with 3 have nt: "\<not> isTrailSurrogate u" and wf: "isWellFormed (v # rest)" by simp_all
    have "fromScalar (unat u) = [u]"
      using unat_unit [of u] by (simp add: fromScalar_def)
    then show ?thesis
      using False nt wf 3 by simp
  qed
qed

lemma scalarValues_inj:
  assumes "isWellFormed s" and "isWellFormed t" and "scalarValues s = scalarValues t"
  shows "s = t"
  using assms fromScalar_scalarValues by metis

lemma isLowerHexDigit_hexDigit: "d < 16 \<Longrightarrow> isLowerHexDigit (hexDigit d)"
  by (simp add: isLowerHexDigit_def word_le_nat_alt unat_hexDigit)

lemma lower_hexPair: "list_all isLowerHexDigit (hexPair b)"
  using unat_byte [of b] by (simp add: hexPair_digits isLowerHexDigit_hexDigit)

lemma lower_concat_hexPair: "list_all isLowerHexDigit (concat (map hexPair bytes))"
  by (induction bytes) (simp_all add: lower_hexPair)

lemma stringToHex_concat:
  "stringToHex E str =
     concat (map hexPair (if TextEncoder_defined E then TextEncoder_encode str
                          else map (\<lambda>u. ucast (u AND 0xff)) str))"
  by (simp add: stringToHex_def foldl_hexPair Let_def)

lemma TextEncoder_encode_inj:
  assumes "isWellFormed s" and "isWellFormed t" and "TextEncoder_encode s = TextEncoder_encode t"
  shows "s = t"
proof -
  have "scalarValues s = scalarValues t"
    using assms(3) unfolding TextEncoder_encode_def
    by (intro concat_utf8Bytes_inj ballI scalarValues_bound)
  with assms(1,2) show ?thesis
    by (rule scalarValues_inj)
qed

text \<open>
  C3 (as amended). \<open>stringToHex\<close> is total and its output consists of lowercase
  hexadecimal digits only, for every string and on every platform. Where \<open>TextEncoder\<close>
  is defined, the output is twice as long as the UTF-8 encoding of the input, and two
  well-formed strings with the same output are equal. Where it is not, each code unit
  contributes its low byte only: the output is twice as long as the string.
\<close>

theorem stringToHex_codec:
  "list_all isLowerHexDigit (stringToHex E str)
   \<and> (TextEncoder_defined E \<longrightarrow>
        length (stringToHex E str) = 2 * length (TextEncoder_encode str)
        \<and> (isWellFormed str \<and> isWellFormed str' \<and> stringToHex E str = stringToHex E str'
             \<longrightarrow> str = str'))
   \<and> (\<not> TextEncoder_defined E \<longrightarrow> length (stringToHex E str) = 2 * length str)"
proof (intro conjI impI)
  show "list_all isLowerHexDigit (stringToHex E str)"
    by (simp only: stringToHex_concat lower_concat_hexPair)
next
  assume "TextEncoder_defined E"
  then show "length (stringToHex E str) = 2 * length (TextEncoder_encode str)"
    by (simp add: stringToHex_concat length_hex)
next
  assume te: "TextEncoder_defined E"
    and "isWellFormed str \<and> isWellFormed str' \<and> stringToHex E str = stringToHex E str'"
  then have wf: "isWellFormed str" "isWellFormed str'"
    and "concat (map hexPair (TextEncoder_encode str))
          = concat (map hexPair (TextEncoder_encode str'))"
    by (simp_all add: stringToHex_concat)
  then have "TextEncoder_encode str = TextEncoder_encode str'"
    by (simp add: concat_hexPair_inj)
  with wf show "str = str'"
    by (rule TextEncoder_encode_inj)
next
  assume "\<not> TextEncoder_defined E"
  then have "stringToHex E str = concat (map hexPair (map (\<lambda>u. ucast (u AND 0xff)) str))"
    by (simp only: stringToHex_concat if_False)
  then show "length (stringToHex E str) = 2 * length str"
    by (simp only: length_hex length_map)
qed

text \<open>A string with a two-byte character, a surrogate pair and a line feed, on both
  platforms.\<close>

lemma eval_utf8: "TextEncoder_encode [0xE9, 0xD83D, 0xDE00, 0x0A] = [0xC3, 0xA9, 0xF0, 0x9F, 0x98, 0x80, 0x0A]"
  by (simp add: TextEncoder_encode_def isLeadSurrogate_def isTrailSurrogate_def utf8Bytes_def)

theorem stringToHex_codec_witness:
  "list_all isLowerHexDigit (stringToHex garbled [0xE9, 0xD83D, 0xDE00, 0x0A])
   \<and> length (stringToHex garbled [0xE9, 0xD83D, 0xDE00, 0x0A]) = 14
   \<and> length (stringToHex noTextEncoder [0xE9, 0xD83D, 0xDE00, 0x0A]) = 8"
  using stringToHex_codec [of garbled "[0xE9, 0xD83D, 0xDE00, 0x0A]" "[0xE9, 0xD83D, 0xDE00, 0x0A]"]
    stringToHex_codec [of noTextEncoder "[0xE9, 0xD83D, 0xDE00, 0x0A]" "[]"]
  by (simp add: eval_utf8 noTextEncoder_def garbled_def hostEnv_def)

text \<open>
  Without \<open>TextEncoder\<close> the claim as stated fails: two different well-formed strings have
  the same output, and the output for U+00E9 has two digits where its UTF-8 encoding has
  two bytes.
\<close>

theorem stringToHex_fallback_counterexample:
  "isWellFormed [0x100] \<and> isWellFormed [0x0] \<and> [0x100] \<noteq> ([0x0] :: jsstring)
   \<and> stringToHex noTextEncoder [0x100] = stringToHex noTextEncoder [0x0]
   \<and> length (stringToHex noTextEncoder [0xE9]) \<noteq> 2 * length (TextEncoder_encode [0xE9])"
  by (simp add: noTextEncoder_def garbled_def hostEnv_def stringToHex_def hexPair_def
      toString16.simps hexDigit_def js_def isLeadSurrogate_def isTrailSurrogate_def
      TextEncoder_encode_def utf8Bytes_def)

section \<open>Properties of the config service\<close>

lemma map_of_setProp: "map_of (setProp k v ps) = (map_of ps)(k \<mapsto> v)"
  by (induction ps) auto

lemma map_of_foldl_setProp:
  "map_of (foldl (\<lambda>t (k, v). setProp k v t) t kvs) = map_of t ++ map_of (rev kvs)"
proof (induction kvs arbitrary: t)
  case Nil
  show ?case by simp
next
  case (Cons kv kvs)
  obtain k v where kv: "kv = (k, v)" by (cases kv)
  show ?case
    by (simp add: Cons.IH kv map_of_setProp map_add_def fun_eq_iff split: option.splits)
qed

lemma map_of_rev_distinct: "distinct (map fst xs) \<Longrightarrow> map_of (rev xs) = map_of xs"
proof (induction xs)
  case Nil
  show ?case by simp
next
  case (Cons kv xs)
  obtain k v where kv: "kv = (k, v)" by (cases kv)
  from Cons.prems kv have "k \<notin> fst ` set xs" and d: "distinct (map fst xs)"
    by simp_all
  then have none: "map_of xs k = None"
    by (simp add: map_of_eq_None_iff)
  show ?case
    using none by (auto simp add: kv Cons.IH [OF d] map_add_def fun_eq_iff split: option.splits)
qed

lemma map_of_objectSpread:
  assumes "distinct (map fst D)" and "distinct (map fst R)"
  shows "map_of (objectSpread (JObj D) (JObj R)) k
           = (case map_of R k of Some v \<Rightarrow> Some v | None \<Rightarrow> map_of D k)"
  using assms
  by (simp add: objectSpread_def copyDataProperties_def map_of_foldl_setProp map_of_rev_distinct
      map_add_def)

lemma loadConfig_cases:
  assumes "ksuExec E = Some ex"
  shows "loadConfig E w =
     (case ex (PATHS_BINARY E @ js '' show-config'') w of
        (Inl e, w') \<Rightarrow> (Inr (DEFAULT_CONFIG E), w')
      | (Inr r, w') \<Rightarrow>
          if errno r = 0 \<and> stdout r \<noteq> [] then
            (case JSON_parse E (stdout r) of
               None \<Rightarrow> (Inr (DEFAULT_CONFIG E), w')
             | Some loaded \<Rightarrow> (Inr (objectSpread (JObj (DEFAULT_CONFIG E)) loaded), w'))
          else (Inr (DEFAULT_CONFIG E), w'))"
  using assms
  by (simp add: loadConfig_def io_bind_def io_catch_def io_return_def io_throw_def
      split: prod.splits sum.splits option.splits)

text \<open>
  C2. \<open>loadConfig\<close> never throws. With the capability absent, with a command that exits
  non-zero, with an output that \<open>JSON.parse\<close> rejects, and also with a call that is
  rejected, it returns the compiled-in default configuration itself.
\<close>

theorem loadConfig_fail_soft:
  "(\<forall>e. fst (loadConfig E w) \<noteq> Inl e)
   \<and> loadConfig (E\<lparr>ksuExec := None\<rparr>) w = (Inr (DEFAULT_CONFIG E), w)
   \<and> (\<forall>ex r w'. ksuExec E = Some ex
          \<and> ex (PATHS_BINARY E @ js '' show-config'') w = (Inr r, w')
          \<and> (errno r \<noteq> 0 \<or> JSON_parse E (stdout r) = None)
        \<longrightarrow> loadConfig E w = (Inr (DEFAULT_CONFIG E), w'))
   \<and> (\<forall>ex e w'. ksuExec E = Some ex
          \<and> ex (PATHS_BINARY E @ js '' show-config'') w = (Inl e, w')
        \<longrightarrow> loadConfig E w = (Inr (DEFAULT_CONFIG E), w'))"
proof (intro conjI allI impI)
  fix e
  show "fst (loadConfig E w) \<noteq> Inl e"
  proof (cases "ksuExec E")
    case None
    then show ?thesis by (simp add: loadConfig_def io_return_def)
  next
    case (Some ex)
    show ?thesis
      by (simp add: loadConfig_cases [OF Some] split: prod.splits sum.splits option.splits)
  qed
next
  show "loadConfig (E\<lparr>ksuExec := None\<rparr>) w = (Inr (DEFAULT_CONFIG E), w)"
    by (simp add: loadConfig_def io_return_def)
next
  fix ex r w'
  assume "ksuExec E = Some ex
          \<and> ex (PATHS_BINARY E @ js '' show-config'') w = (Inr r, w')
          \<and> (errno r \<noteq> 0 \<or> JSON_parse E (stdout r) = None)"
  then show "loadConfig E w = (Inr (DEFAULT_CONFIG E), w')"
    by (auto simp add: loadConfig_cases)
next
  fix ex e w'
  assume "ksuExec E = Some ex
          \<and> ex (PATHS_BINARY E @ js '' show-config'') w = (Inl e, w')"
  then show "loadConfig E w = (Inr (DEFAULT_CONFIG E), w')"
    by (auto simp add: loadConfig_cases)
qed

text \<open>The two remote failures: a command that exits with code 1, and a command that
  exits with code 0 and prints text that is not JSON.\<close>

theorem loadConfig_fail_soft_witness:
  "loadConfig diskFull () = (Inr (DEFAULT_CONFIG diskFull), ())
   \<and> loadConfig garbled () = (Inr sampleDefaults, ())"
proof -
  have 1: "loadConfig diskFull () = (Inr (DEFAULT_CONFIG diskFull), ())"
    using loadConfig_fail_soft [of diskFull "()", THEN conjunct2, THEN conjunct2,
        THEN conjunct1, rule_format, of "the (ksuExec diskFull)"
        "\<lparr>errno = 1, stdout = [], stderr = js ''disk full''\<rparr>" "()"]
    by (simp add: diskFull_def)
  have 2: "loadConfig garbled () = (Inr (DEFAULT_CONFIG garbled), ())"
    using loadConfig_fail_soft [of garbled "()", THEN conjunct2, THEN conjunct2,
        THEN conjunct1, rule_format, of "the (ksuExec garbled)"
        "\<lparr>errno = 0, stdout = js ''Usage: meta-hybrid'', stderr = []\<rparr>" "()"]
    by (simp add: garbled_def hostEnv_def scripted_def js_def)
  from 1 2 show ?thesis
    by (simp add: garbled_def hostEnv_def)
qed

text \<open>
  C4. When the command succeeds and its output parses to a record \<open>R\<close>, \<open>loadConfig\<close>
  returns the spread of the defaults \<open>D\<close> and \<open>R\<close>: at every key the value is that of
  \<open>R\<close> where \<open>R\<close> has the key and that of \<open>D\<close> otherwise, so every key of the defaults is
  present in the result. (\<open>D\<close> and \<open>R\<close> are objects: no name occurs twice.)
\<close>

theorem loadConfig_merge:
  assumes "ksuExec E = Some ex"
    and "ex (PATHS_BINARY E @ js '' show-config'') w = (Inr r, w')"
    and "errno r = 0" and "stdout r \<noteq> []"
    and "JSON_parse E (stdout r) = Some (JObj R)"
    and "distinct (map fst R)" and "distinct (map fst (DEFAULT_CONFIG E))"
  shows "\<exists>config. loadConfig E w = (Inr config, w')
           \<and> config = objectSpread (JObj (DEFAULT_CONFIG E)) (JObj R)
           \<and> (\<forall>k. map_of config k
                  = (case map_of R k of Some v \<Rightarrow> Some v | None \<Rightarrow> map_of (DEFAULT_CONFIG E) k))
           \<and> fst ` set (DEFAULT_CONFIG E) \<subseteq> fst ` set config"
proof -
  let ?config = "objectSpread (JObj (DEFAULT_CONFIG E)) (JObj R)"
  have run: "loadConfig E w = (Inr ?config, w')"
    using assms(2-5) by (simp add: loadConfig_cases [OF assms(1)])
  have look: "map_of ?config k
                = (case map_of R k of Some v \<Rightarrow> Some v | None \<Rightarrow> map_of (DEFAULT_CONFIG E) k)" for k
    by (rule map_of_objectSpread [OF assms(7) assms(6)])
  have "fst ` set (DEFAULT_CONFIG E) \<subseteq> fst ` set ?config"
  proof
    fix k assume "k \<in> fst ` set (DEFAULT_CONFIG E)"
    then have "map_of (DEFAULT_CONFIG E) k \<noteq> None"
      by (simp add: map_of_eq_None_iff)
    then have "map_of ?config k \<noteq> None"
      by (simp add: look split: option.splits)
    then show "k \<in> fst ` set ?config"
      by (simp add: map_of_eq_None_iff)
  qed
  with run look show ?thesis by blast
qed

theorem loadConfig_merge_witness:
  "\<exists>config. loadConfig partialConfig () = (Inr config, ())
     \<and> map_of config (js ''mountsource'') = Some (JStr (js ''APatch''))
     \<and> map_of config (js ''moduledir'') = Some (JStr (js ''/data/adb/modules''))
     \<and> map_of config (js ''disable_umount'') = Some (JBool False)"
proof -
  have "\<exists>config. loadConfig partialConfig () = (Inr config, ())
      \<and> config = objectSpread (JObj (DEFAULT_CONFIG partialConfig))
                   (JObj [(js ''mountsource'', JStr (js ''APatch''))])
      \<and> (\<forall>k. map_of config k
             = (case map_of [(js ''mountsource'', JStr (js ''APatch''))] k of
                  Some v \<Rightarrow> Some v | None \<Rightarrow> map_of (DEFAULT_CONFIG partialConfig) k))
      \<and> fst ` set (DEFAULT_CONFIG partialConfig) \<subseteq> fst ` set config"
    by (rule loadConfig_merge [where ex = "the (ksuExec partialConfig)"
          and r = "\<lparr>errno = 0, stdout = js ''{\"mountsource\":\"APatch\"}'', stderr = []\<rparr>"])
      (simp_all add: partialConfig_def hostEnv_def scripted_def sampleDefaults_def js_def)
  then obtain config where run: "loadConfig partialConfig () = (Inr config, ())"
    and look: "\<And>k. map_of config k
             = (case map_of [(js ''mountsource'', JStr (js ''APatch''))] k of
                  Some v \<Rightarrow> Some v | None \<Rightarrow> map_of (DEFAULT_CONFIG partialConfig) k)"
    by blast
  have "map_of config (js ''mountsource'') = Some (JStr (js ''APatch''))"
    and "map_of config (js ''moduledir'') = Some (JStr (js ''/data/adb/modules''))"
    and "map_of config (js ''disable_umount'') = Some (JBool False)"
    by (simp_all add: look partialConfig_def hostEnv_def sampleDefaults_def js_def)
  with run show ?thesis by blast
qed

section \<open>Properties of the status aggregator\<close>

lemma getSystemInfo_steps:
  assumes "ksuExec E = Some ex"
  shows "getSystemInfo E w =
     (case ex cmdSys w of
        (Inl e, w1) \<Rightarrow> (Inr sentinelInfo, w1)
      | (Inr rSys, w1) \<Rightarrow>
          (case ex (catStateFile E) w1 of
             (Inl e, w2) \<Rightarrow> (Inr sentinelInfo, w2)
           | (Inr rState, w2) \<Rightarrow>
               (Inr (parseState E rState (parseTagged rSys sentinelInfo)), w2)))"
  using assms
  by (simp add: getSystemInfo_def io_bind_def io_catch_def io_return_def Let_def
      split: prod.splits sum.splits)

lemma taggedLine_frame:
  "mountBase (taggedLine info line) = mountBase info"
  "activeMounts (taggedLine info line) = activeMounts info"
  by (simp_all add: taggedLine_def)

lemma foldl_taggedLine_frame:
  "mountBase (foldl taggedLine info ls) = mountBase info
   \<and> activeMounts (foldl taggedLine info ls) = activeMounts info"
  by (induction ls arbitrary: info) (simp_all add: taggedLine_frame)

lemma parseTagged_frame:
  "mountBase (parseTagged r info) = mountBase info"
  "activeMounts (parseTagged r info) = activeMounts info"
  by (simp_all add: parseTagged_def foldl_taggedLine_frame)

lemma parseTagged_failed:
  "errno r \<noteq> 0 \<or> stdout r = [] \<Longrightarrow> parseTagged r info = info"
  by (auto simp add: parseTagged_def)

lemma applyState_frame:
  "applyState E out info = Inr info' \<Longrightarrow>
     kernel_si info' = kernel_si info \<and> selinux_si info' = selinux_si info"
  by (auto simp add: applyState_def Let_def split: option.splits sum.splits)

lemma parseState_frame:
  "kernel_si (parseState E r info) = kernel_si info"
  "selinux_si (parseState E r info) = selinux_si info"
  by (auto simp add: parseState_def dest: applyState_frame split: sum.splits)

lemma applyState_fields:
  "applyState E out info = Inr info' \<Longrightarrow> applyState E out other = Inr other' \<Longrightarrow>
     mountBase info' = mountBase other' \<and> activeMounts info' = activeMounts other'"
  by (auto simp add: applyState_def Let_def split: option.splits sum.splits)

lemma applyState_throws:
  "applyState E out info = Inl e \<Longrightarrow> applyState E out other = Inl e"
  by (auto simp add: applyState_def Let_def split: option.splits sum.splits)

lemma parseState_failed:
  "errno r \<noteq> 0 \<or> stdout r = [] \<or> JSON_parse E (stdout r) = None \<Longrightarrow> parseState E r info = info"
  by (auto simp add: parseState_def applyState_def)

lemma parseState_object:
  assumes "errno r = 0" and "stdout r \<noteq> []" and "JSON_parse E (stdout r) = Some (JObj state)"
  shows "mountBase (parseState E r info) = orElse (map_of state (js ''mount_point'')) (JStr (js ''Unknown''))"
    and "activeMounts (parseState E r info) = orElse (map_of state (js ''active_mounts'')) (JArr [])"
  using assms
  by (simp_all add: parseState_def applyState_def Let_def split: option.splits)

text \<open>
  C7 (as amended). When both calls of \<open>getSystemInfo\<close> return, the two sub-queries are
  isolated: \<open>kernel\<close> and \<open>selinux\<close> are what the tagged output alone gives, and the
  sentinel \<open>-\<close> when that command exits non-zero or prints nothing; \<open>mountBase\<close> and
  \<open>activeMounts\<close> are what the state file alone gives, the sentinels when that command
  exits non-zero, prints nothing or prints what does not parse, and the state's
  \<open>mount_point\<close> and \<open>active_mounts\<close> (or \<open>Unknown\<close> and the empty list) when it parses
  to a record. When either call is rejected, or the capability is absent, every field is
  at its sentinel.
\<close>

theorem getSystemInfo_isolation:
  assumes "ksuExec E = Some ex"
  shows "getSystemInfo (E\<lparr>ksuExec := None\<rparr>) w = (Inr sentinelInfo, w)
   \<and> (ex cmdSys w = (Inr rSys, w1) \<and> ex (catStateFile E) w1 = (Inr rState, w2) \<longrightarrow>
        (\<exists>info. getSystemInfo E w = (Inr info, w2)
           \<and> kernel_si info = kernel_si (parseTagged rSys sentinelInfo)
           \<and> selinux_si info = selinux_si (parseTagged rSys sentinelInfo)
           \<and> mountBase info = mountBase (parseState E rState sentinelInfo)
           \<and> activeMounts info = activeMounts (parseState E rState sentinelInfo)
           \<and> (errno rSys \<noteq> 0 \<or> stdout rSys = []
                \<longrightarrow> kernel_si info = js ''-'' \<and> selinux_si info = js ''-'')
           \<and> (errno rState \<noteq> 0 \<or> stdout rState = [] \<or> JSON_parse E (stdout rState) = None
                \<longrightarrow> mountBase info = JStr (js ''-'') \<and> activeMounts info = JArr [])
           \<and> (errno rState = 0 \<and> stdout rState \<noteq> []
                \<and> JSON_parse E (stdout rState) = Some (JObj state)
                \<longrightarrow> mountBase info
                      = orElse (map_of state (js ''mount_point'')) (JStr (js ''Unknown''))
                   \<and> activeMounts info
                      = orElse (map_of state (js ''active_mounts'')) (JArr []))))
   \<and> (ex cmdSys w = (Inl e, w1) \<longrightarrow> getSystemInfo E w = (Inr sentinelInfo, w1))
   \<and> (ex cmdSys w = (Inr rSys, w1) \<and> ex (catStateFile E) w1 = (Inl e, w2)
        \<longrightarrow> getSystemInfo E w = (Inr sentinelInfo, w2))"
proof (intro conjI impI)
  show "getSystemInfo (E\<lparr>ksuExec := None\<rparr>) w = (Inr sentinelInfo, w)"
    by (simp add: getSystemInfo_def io_return_def)
next
  assume "ex cmdSys w = (Inl e, w1)"
  then show "getSystemInfo E w = (Inr sentinelInfo, w1)"
    by (simp add: getSystemInfo_steps [OF assms])
next
  assume "ex cmdSys w = (Inr rSys, w1) \<and> ex (catStateFile E) w1 = (Inl e, w2)"
  then show "getSystemInfo E w = (Inr sentinelInfo, w2)"
    by (simp add: getSystemInfo_steps [OF assms])
next
  assume calls: "ex cmdSys w = (Inr rSys, w1) \<and> ex (catStateFile E) w1 = (Inr rState, w2)"
  let ?tagged = "parseTagged rSys sentinelInfo"
  let ?info = "parseState E rState ?tagged"
  have run: "getSystemInfo E w = (Inr ?info, w2)"
    using calls by (simp add: getSystemInfo_steps [OF assms])
  have tagged: "kernel_si ?info = kernel_si ?tagged" "selinux_si ?info = selinux_si ?tagged"
    by (rule parseState_frame)+
  have state: "mountBase ?info = mountBase (parseState E rState sentinelInfo)
      \<and> activeMounts ?info = activeMounts (parseState E rState sentinelInfo)"
  proof (cases "errno rState = 0 \<and> stdout rState \<noteq> []")
    case False
    then show ?thesis
      by (auto simp add: parseState_def parseTagged_frame)
  next
    case True
    show ?thesis
    proof (cases "applyState E (stdout rState) ?tagged")
      case (Inl err)
      then have "applyState E (stdout rState) sentinelInfo = Inl err"
        by (rule applyState_throws)
      with Inl True show ?thesis
        by (simp add: parseState_def parseTagged_frame)
    next
      case (Inr info')
      have "applyState E (stdout rState) sentinelInfo \<noteq> Inl err" for err
        using applyState_throws [of E "stdout rState" sentinelInfo err ?tagged] Inr by auto
      then obtain other where other: "applyState E (stdout rState) sentinelInfo = Inr other"
        by (cases "applyState E (stdout rState) sentinelInfo") auto
      from Inr other have "mountBase info' = mountBase other \<and> activeMounts info' = activeMounts other"
        by (rule applyState_fields)
      with Inr other True show ?thesis
        by (simp add: parseState_def)
    qed
  qed
  have sentinel: "kernel_si sentinelInfo = js ''-''" "selinux_si sentinelInfo = js ''-''"
    "mountBase sentinelInfo = JStr (js ''-'')" "activeMounts sentinelInfo = JArr []"
    by (simp_all add: sentinelInfo_def)
  have failedTagged: "errno rSys \<noteq> 0 \<or> stdout rSys = []
      \<longrightarrow> kernel_si ?info = js ''-'' \<and> selinux_si ?info = js ''-''"
  proof
    assume "errno rSys \<noteq> 0 \<or> stdout rSys = []"
    then have "?tagged = sentinelInfo"
      by (rule parseTagged_failed)
    then show "kernel_si ?info = js ''-'' \<and> selinux_si ?info = js ''-''"
      by (simp add: parseState_frame sentinel)
  qed
  have failedState: "errno rState \<noteq> 0 \<or> stdout rState = [] \<or> JSON_parse E (stdout rState) = None
      \<longrightarrow> mountBase ?info = JStr (js ''-'') \<and> activeMounts ?info = JArr []"
  proof
    assume "errno rState \<noteq> 0 \<or> stdout rState = [] \<or> JSON_parse E (stdout rState) = None"
    then have "?info = ?tagged"
      by (rule parseState_failed)
    then show "mountBase ?info = JStr (js ''-'') \<and> activeMounts ?info = JArr []"
      by (simp add: parseTagged_frame sentinel)
  qed
  have parsed: "errno rState = 0 \<and> stdout rState \<noteq> []
      \<and> JSON_parse E (stdout rState) = Some (JObj state)
      \<longrightarrow> mountBase ?info = orElse (map_of state (js ''mount_point'')) (JStr (js ''Unknown''))
         \<and> activeMounts ?info = orElse (map_of state (js ''active_mounts'')) (JArr [])"
    by (intro impI conjI; elim conjE) (rule parseState_object; assumption)+
  from run tagged state [THEN conjunct1] state [THEN conjunct2] failedTagged failedState parsed
  show "\<exists>info. getSystemInfo E w = (Inr info, w2)
           \<and> kernel_si info = kernel_si (parseTagged rSys sentinelInfo)
           \<and> selinux_si info = selinux_si (parseTagged rSys sentinelInfo)
           \<and> mountBase info = mountBase (parseState E rState sentinelInfo)
           \<and> activeMounts info = activeMounts (parseState E rState sentinelInfo)
           \<and> (errno rSys \<noteq> 0 \<or> stdout rSys = []
                \<longrightarrow> kernel_si info = js ''-'' \<and> selinux_si info = js ''-'')
           \<and> (errno rState \<noteq> 0 \<or> stdout rState = [] \<or> JSON_parse E (stdout rState) = None
                \<longrightarrow> mountBase info = JStr (js ''-'') \<and> activeMounts info = JArr [])
           \<and> (errno rState = 0 \<and> stdout rState \<noteq> []
                \<and> JSON_parse E (stdout rState) = Some (JObj state)
                \<longrightarrow> mountBase info
                      = orElse (map_of state (js ''mount_point'')) (JStr (js ''Unknown''))
                   \<and> activeMounts info
                      = orElse (map_of state (js ''active_mounts'')) (JArr []))"
    by (intro exI [of _ ?info] conjI) assumption+
qed

text \<open>The first device (tagged command failed, state file read) and the third (tagged
  command succeeded, state file missing).\<close>

lemma catStateFile_default:
  \<open>PATHS_DAEMON_STATE E = None \<Longrightarrow>
     catStateFile E = js ''cat "/data/adb/meta-hybrid/run/daemon_state.json"''\<close>
  by (simp add: catStateFile_def stateFile_def js_def)

lemma cmdSys_not_cat: \<open>cmdSys \<noteq> js ''cat "/data/adb/meta-hybrid/run/daemon_state.json"''\<close>
  by (simp add: cmdSys_def js_def)

lemma eval_tagged:
  "parseTagged \<lparr>errno = 0,
       stdout = js ''KERNEL:6.1.0-android14'' @ [0x0A] @ js ''SELINUX:Enforcing'' @ [0x0A],
       stderr = []\<rparr> sentinelInfo
     = sentinelInfo\<lparr>kernel_si := js ''6.1.0-android14'', selinux_si := js ''Enforcing''\<rparr>"
  by code_simp

theorem getSystemInfo_isolation_witness:
  "(\<exists>info. getSystemInfo stateOnly ((), []) = (Inr info, ((), [cmdSys, catStateFile stateOnly]))
      \<and> kernel_si info = js ''-'' \<and> selinux_si info = js ''-''
      \<and> mountBase info = JStr (js ''/mnt/hybrid'')
      \<and> activeMounts info = JArr [JStr (js ''system'')])
   \<and> (\<exists>info. getSystemInfo taggedOnly ((), []) = (Inr info, ((), [cmdSys, catStateFile taggedOnly]))
      \<and> kernel_si info = js ''6.1.0-android14'' \<and> selinux_si info = js ''Enforcing''
      \<and> mountBase info = JStr (js ''-'') \<and> activeMounts info = JArr [])"
proof
  define rSys where "rSys = \<lparr>errno = 1, stdout = [], stderr = js ''uname: not found''\<rparr>"
  define rState where "rState = \<lparr>errno = 0, stdout = stateJson, stderr = []\<rparr>"
  define ex :: "(unit \<times> jsstring list) exec" where
    "ex = logged (scripted [(cmdSys, Inr rSys), (catStateFile stateOnly, Inr rState)])"
  have cat: "catStateFile stateOnly = js ''cat \"/data/adb/meta-hybrid/run/daemon_state.json\"''"
    by (rule catStateFile_default) (simp add: stateOnly_def hostEnv_def)
  have cap: "ksuExec stateOnly = Some ex"
    unfolding ex_def cat by (simp add: stateOnly_def hostEnv_def rSys_def rState_def)
  have calls: "ex cmdSys ((), []) = (Inr rSys, ((), [cmdSys]))
      \<and> ex (catStateFile stateOnly) ((), [cmdSys])
          = (Inr rState, ((), [cmdSys, catStateFile stateOnly]))"
    using cmdSys_not_cat by (simp add: ex_def logged_def scripted_def cat)
  have parse: "errno rState = 0 \<and> stdout rState \<noteq> []
      \<and> JSON_parse stateOnly (stdout rState)
          = Some (JObj [(js ''mount_point'', JStr (js ''/mnt/hybrid'')),
                        (js ''active_mounts'', JArr [JStr (js ''system'')])])"
    by (simp add: rState_def stateOnly_def hostEnv_def stateValue_def) (simp add: stateJson_def js_def)
  from getSystemInfo_isolation [OF cap, where w = "((), [])" and rSys = rSys and rState = rState
      and ?w1.0 = "((), [cmdSys])" and ?w2.0 = "((), [cmdSys, catStateFile stateOnly])"
      and state = "[(js ''mount_point'', JStr (js ''/mnt/hybrid'')),
                    (js ''active_mounts'', JArr [JStr (js ''system'')])]",
      THEN conjunct2, THEN conjunct1, THEN mp, OF calls]
  obtain info where run: "getSystemInfo stateOnly ((), [])
        = (Inr info, ((), [cmdSys, catStateFile stateOnly]))"
    and tagged: "errno rSys \<noteq> 0 \<or> stdout rSys = []
        \<longrightarrow> kernel_si info = js ''-'' \<and> selinux_si info = js ''-''"
    and state: "errno rState = 0 \<and> stdout rState \<noteq> []
        \<and> JSON_parse stateOnly (stdout rState)
            = Some (JObj [(js ''mount_point'', JStr (js ''/mnt/hybrid'')),
                          (js ''active_mounts'', JArr [JStr (js ''system'')])])
        \<longrightarrow> mountBase info
              = orElse (map_of [(js ''mount_point'', JStr (js ''/mnt/hybrid'')),
                                (js ''active_mounts'', JArr [JStr (js ''system'')])]
                          (js ''mount_point'')) (JStr (js ''Unknown''))
           \<and> activeMounts info
              = orElse (map_of [(js ''mount_point'', JStr (js ''/mnt/hybrid'')),
                                (js ''active_mounts'', JArr [JStr (js ''system'')])]
                          (js ''active_mounts'')) (JArr [])"
    by blast
  from tagged have "kernel_si info = js ''-'' \<and> selinux_si info = js ''-''"
    by (simp add: rSys_def)
  moreover from state parse have "mountBase info = JStr (js ''/mnt/hybrid'')
      \<and> activeMounts info = JArr [JStr (js ''system'')]"
    by (simp add: orElse_def js_def)
  ultimately show "\<exists>info. getSystemInfo stateOnly ((), [])
        = (Inr info, ((), [cmdSys, catStateFile stateOnly]))
      \<and> kernel_si info = js ''-'' \<and> selinux_si info = js ''-''
      \<and> mountBase info = JStr (js ''/mnt/hybrid'')
      \<and> activeMounts info = JArr [JStr (js ''system'')]"
    using run by blast
next
  define rSys where "rSys = \<lparr>errno = 0,
         stdout = js ''KERNEL:6.1.0-android14'' @ [0x0A] @ js ''SELINUX:Enforcing'' @ [0x0A],
         stderr = []\<rparr>"
  define rState where "rState = \<lparr>errno = 1, stdout = [], stderr = js ''No such file or directory''\<rparr>"
  define ex :: "(unit \<times> jsstring list) exec" where
    "ex = logged (scripted [(cmdSys, Inr rSys), (catStateFile taggedOnly, Inr rState)])"
  have cat: "catStateFile taggedOnly = js ''cat \"/data/adb/meta-hybrid/run/daemon_state.json\"''"
    by (rule catStateFile_default) (simp add: taggedOnly_def hostEnv_def)
  have cap: "ksuExec taggedOnly = Some ex"
    unfolding ex_def cat by (simp add: taggedOnly_def hostEnv_def rSys_def rState_def)
  have calls: "ex cmdSys ((), []) = (Inr rSys, ((), [cmdSys]))
      \<and> ex (catStateFile taggedOnly) ((), [cmdSys])
          = (Inr rState, ((), [cmdSys, catStateFile taggedOnly]))"
    using cmdSys_not_cat by (simp add: ex_def logged_def scripted_def cat)
  from getSystemInfo_isolation [OF cap, where w = "((), [])" and rSys = rSys and rState = rState
      and ?w1.0 = "((), [cmdSys])" and ?w2.0 = "((), [cmdSys, catStateFile taggedOnly])",
      THEN conjunct2, THEN conjunct1, THEN mp, OF calls]
  obtain info where run: "getSystemInfo taggedOnly ((), [])
        = (Inr info, ((), [cmdSys, catStateFile taggedOnly]))"
    and tagged: "kernel_si info = kernel_si (parseTagged rSys sentinelInfo)"
      "selinux_si info = selinux_si (parseTagged rSys sentinelInfo)"
    and state: "errno rState \<noteq> 0 \<or> stdout rState = [] \<or> JSON_parse taggedOnly (stdout rState) = None
        \<longrightarrow> mountBase info = JStr (js ''-'') \<and> activeMounts info = JArr []"
    by blast
  from tagged have "kernel_si info = js ''6.1.0-android14'' \<and> selinux_si info = js ''Enforcing''"
    unfolding rSys_def eval_tagged by simp
  moreover from state have "mountBase info = JStr (js ''-'') \<and> activeMounts info = JArr []"
    by (simp add: rState_def)
  ultimately show "\<exists>info. getSystemInfo taggedOnly ((), [])
        = (Inr info, ((), [cmdSys, catStateFile taggedOnly]))
      \<and> kernel_si info = js ''6.1.0-android14'' \<and> selinux_si info = js ''Enforcing''
      \<and> mountBase info = JStr (js ''-'') \<and> activeMounts info = JArr []"
    using run by blast
qed

text \<open>
  On the second device the state file's command would exit with code 0 and its output
  parses with the mount point \<open>/mnt/hybrid\<close>, yet the rejected call of the tagged command
  ends the operation: the state file is never read and \<open>mountBase\<close> stays at the sentinel.
\<close>

theorem rejected_call_counterexample:
  "fst (the (ksuExec taggedRejected) (catStateFile taggedRejected) ((), []))
     = Inr \<lparr>errno = 0, stdout = stateJson, stderr = []\<rparr>
   \<and> mountBase (parseState taggedRejected \<lparr>errno = 0, stdout = stateJson, stderr = []\<rparr> sentinelInfo)
     = JStr (js ''/mnt/hybrid'')
   \<and> getSystemInfo taggedRejected ((), []) = (Inr sentinelInfo, ((), [cmdSys]))
   \<and> mountBase sentinelInfo = JStr (js ''-'')"
proof -
  have cat: "catStateFile taggedRejected = js ''cat \"/data/adb/meta-hybrid/run/daemon_state.json\"''"
    by (rule catStateFile_default) (simp add: taggedRejected_def hostEnv_def)
  have cap: "ksuExec taggedRejected = Some (logged (scripted
     [(cmdSys, Inl (Error (js ''exec failed''))),
      (catStateFile taggedRejected, Inr \<lparr>errno = 0, stdout = stateJson, stderr = []\<rparr>)]))"
    by (simp add: cat) (simp add: taggedRejected_def hostEnv_def)
  have 1: "fst (the (ksuExec taggedRejected) (catStateFile taggedRejected) ((), []))
     = Inr \<lparr>errno = 0, stdout = stateJson, stderr = []\<rparr>"
    using cmdSys_not_cat by (simp add: cap logged_def scripted_def) (simp add: cat)
  have nonempty: "stateJson \<noteq> []"
    by (simp add: stateJson_def js_def)
  have 2: "mountBase (parseState taggedRejected \<lparr>errno = 0, stdout = stateJson, stderr = []\<rparr>
              sentinelInfo) = JStr (js ''/mnt/hybrid'')"
    using nonempty
    by (simp add: parseState_def applyState_def taggedRejected_def hostEnv_def stateValue_def
        Let_def orElse_def) (simp add: js_def)
  have 3: "getSystemInfo taggedRejected ((), []) = (Inr sentinelInfo, ((), [cmdSys]))"
    by (simp add: getSystemInfo_steps [OF cap] logged_def scripted_def)
  have 4: "mountBase sentinelInfo = JStr (js ''-'')"
    by (simp add: sentinelInfo_def)
  from 1 2 3 4 show ?thesis by blast
qed

lemma getDeviceStatus_steps:
  assumes "ksuExec E = Some ex"
  shows "getDeviceStatus E w =
     (case ex (js ''getprop ro.product.model'') w of
        (Inl e, w1) \<Rightarrow>
          (Inr \<lparr>model = js ''Device'', android = js ''14'', kernel_di = js ''Unknown'',
                 selinux_di = js ''Enforcing''\<rparr>, w1)
      | (Inr p1, w1) \<Rightarrow>
     (case ex (js ''getprop ro.build.version.release'') w1 of
        (Inl e, w2) \<Rightarrow>
          (Inr \<lparr>model = (if errno p1 = 0 then trim (stdout p1) else js ''Device''),
                 android = js ''14'', kernel_di = js ''Unknown'',
                 selinux_di = js ''Enforcing''\<rparr>, w2)
      | (Inr p2, w2) \<Rightarrow>
     (case ex (js ''getprop ro.build.version.sdk'') w2 of
        (Inl e, w3) \<Rightarrow>
          (Inr \<lparr>model = (if errno p1 = 0 then trim (stdout p1) else js ''Device''),
                 android = js ''14'', kernel_di = js ''Unknown'',
                 selinux_di = js ''Enforcing''\<rparr>, w3)
      | (Inr p3, w3) \<Rightarrow>
     (case ex (js ''uname -r'') w3 of
        (Inl e, w4) \<Rightarrow>
          (Inr \<lparr>model = (if errno p1 = 0 then trim (stdout p1) else js ''Device''),
                 android = (if errno p2 = 0
                            then trim (stdout p2) @ js '' (API '' @ trim (stdout p3) @ js '')''
                            else js ''14''),
                 kernel_di = js ''Unknown'', selinux_di = js ''Enforcing''\<rparr>, w4)
      | (Inr p4, w4) \<Rightarrow>
          (Inr \<lparr>model = (if errno p1 = 0 then trim (stdout p1) else js ''Device''),
                 android = (if errno p2 = 0
                            then trim (stdout p2) @ js '' (API '' @ trim (stdout p3) @ js '')''
                            else js ''14''),
                 kernel_di = (if errno p4 = 0 then trim (stdout p4) else js ''Unknown''),
                 selinux_di = js ''Enforcing''\<rparr>, w4)))))"
  using assms
  by (simp add: getDeviceStatus_def deviceQueries_def io_bind_def io_catch_def io_return_def
      withVars_def assign_def Let_def split: prod.splits sum.splits)

text \<open>
  C8 (as amended). \<open>getDeviceStatus\<close> never throws and its record always has the four
  fields, \<open>selinux\<close> being the literal \<open>Enforcing\<close>; without the capability the other
  three are the literals \<open>Device\<close>, \<open>14\<close> and \<open>Unknown\<close>. It issues the model, release,
  SDK and kernel queries in this order. When all four calls return: a model, release or
  kernel query that exits non-zero leaves its field at the literal and the later queries
  are still made; a model or kernel query that exits with 0 gives the trimmed output; and
  when the release and SDK queries both exit with 0 the OS version is composed of the two
  outputs. When a call is rejected the remaining queries are not made and their fields stay
  at the literals.
\<close>

theorem getDeviceStatus_fallbacks:
  assumes "ksuExec E = Some ex"
  shows "(\<exists>d. fst (getDeviceStatus E w) = Inr d \<and> selinux_di d = js ''Enforcing'')
   \<and> getDeviceStatus (E\<lparr>ksuExec := None\<rparr>) w
       = (Inr \<lparr>model = js ''Device'', android = js ''14'', kernel_di = js ''Unknown'',
                selinux_di = js ''Enforcing''\<rparr>, w)
   \<and> (ex (js ''getprop ro.product.model'') w = (Inr p1, w1)
        \<and> ex (js ''getprop ro.build.version.release'') w1 = (Inr p2, w2)
        \<and> ex (js ''getprop ro.build.version.sdk'') w2 = (Inr p3, w3)
        \<and> ex (js ''uname -r'') w3 = (Inr p4, w4)
        \<longrightarrow> (\<exists>d. getDeviceStatus E w = (Inr d, w4)
              \<and> model d = (if errno p1 = 0 then trim (stdout p1) else js ''Device'')
              \<and> (errno p2 \<noteq> 0 \<longrightarrow> android d = js ''14'')
              \<and> (errno p2 = 0 \<and> errno p3 = 0
                   \<longrightarrow> android d = trim (stdout p2) @ js '' (API '' @ trim (stdout p3) @ js '')'')
              \<and> kernel_di d = (if errno p4 = 0 then trim (stdout p4) else js ''Unknown'')
              \<and> selinux_di d = js ''Enforcing''))
   \<and> (ex (js ''getprop ro.product.model'') w = (Inl e, w1)
        \<longrightarrow> getDeviceStatus E w
            = (Inr \<lparr>model = js ''Device'', android = js ''14'', kernel_di = js ''Unknown'',
                     selinux_di = js ''Enforcing''\<rparr>, w1))
   \<and> (ex (js ''getprop ro.product.model'') w = (Inr p1, w1)
        \<and> ex (js ''getprop ro.build.version.release'') w1 = (Inl e, w2)
        \<longrightarrow> getDeviceStatus E w
            = (Inr \<lparr>model = (if errno p1 = 0 then trim (stdout p1) else js ''Device''),
                     android = js ''14'', kernel_di = js ''Unknown'',
                     selinux_di = js ''Enforcing''\<rparr>, w2))
   \<and> (ex (js ''getprop ro.product.model'') w = (Inr p1, w1)
        \<and> ex (js ''getprop ro.build.version.release'') w1 = (Inr p2, w2)
        \<and> ex (js ''getprop ro.build.version.sdk'') w2 = (Inl e, w3)
        \<longrightarrow> getDeviceStatus E w
            = (Inr \<lparr>model = (if errno p1 = 0 then trim (stdout p1) else js ''Device''),
                     android = js ''14'', kernel_di = js ''Unknown'',
                     selinux_di = js ''Enforcing''\<rparr>, w3))
   \<and> (ex (js ''getprop ro.product.model'') w = (Inr p1, w1)
        \<and> ex (js ''getprop ro.build.version.release'') w1 = (Inr p2, w2)
        \<and> ex (js ''getprop ro.build.version.sdk'') w2 = (Inr p3, w3)
        \<and> ex (js ''uname -r'') w3 = (Inl e, w4)
        \<longrightarrow> (\<exists>d. getDeviceStatus E w = (Inr d, w4)
              \<and> model d = (if errno p1 = 0 then trim (stdout p1) else js ''Device'')
              \<and> (errno p2 \<noteq> 0 \<longrightarrow> android d = js ''14'')
              \<and> (errno p2 = 0 \<and> errno p3 = 0
                   \<longrightarrow> android d = trim (stdout p2) @ js '' (API '' @ trim (stdout p3) @ js '')'')
              \<and> kernel_di d = js ''Unknown''
              \<and> selinux_di d = js ''Enforcing''))"
proof -
  note steps = getDeviceStatus_steps [OF assms, of w]
  have populated: "\<exists>d. fst (getDeviceStatus E w) = Inr d \<and> selinux_di d = js ''Enforcing''"
    by (simp add: steps split: prod.splits sum.splits)
  have absent: "getDeviceStatus (E\<lparr>ksuExec := None\<rparr>) w
       = (Inr \<lparr>model = js ''Device'', android = js ''14'', kernel_di = js ''Unknown'',
                selinux_di = js ''Enforcing''\<rparr>, w)"
    by (simp add: getDeviceStatus_def io_return_def)
  show ?thesis
    by (intro conjI impI populated absent; (elim conjE)?) (simp_all add: steps)
qed

text \<open>The second device: the model stays at its literal, the other queries contribute.\<close>

lemma device_queries_distinct:
  "js ''getprop ro.product.model'' \<noteq> js ''getprop ro.build.version.release''"
  "js ''getprop ro.product.model'' \<noteq> js ''getprop ro.build.version.sdk''"
  "js ''getprop ro.product.model'' \<noteq> js ''uname -r''"
  "js ''getprop ro.build.version.release'' \<noteq> js ''getprop ro.build.version.sdk''"
  "js ''getprop ro.build.version.release'' \<noteq> js ''uname -r''"
  "js ''getprop ro.build.version.sdk'' \<noteq> js ''uname -r''"
  by (simp_all add: js_def)

lemma eval_trim:
  "trim (js ''14'' @ [0x0A]) = js ''14''"
  "trim (js ''34'' @ [0x0A]) = js ''34''"
  "trim (js ''6.1.0-android14'' @ [0x0A]) = js ''6.1.0-android14''"
  by code_simp+

theorem getDeviceStatus_fallbacks_witness:
  "getDeviceStatus modelFailed ((), [])
     = (Inr \<lparr>model = js ''Device'', android = js ''14 (API 34)'',
              kernel_di = js ''6.1.0-android14'', selinux_di = js ''Enforcing''\<rparr>,
        ((), [js ''getprop ro.product.model'', js ''getprop ro.build.version.release'',
              js ''getprop ro.build.version.sdk'', js ''uname -r'']))"
proof -
  define p1 where "p1 = \<lparr>errno = 1, stdout = [], stderr = js ''getprop: not found''\<rparr>"
  define p2 where "p2 = \<lparr>errno = 0, stdout = js ''14'' @ [0x0A], stderr = []\<rparr>"
  define p3 where "p3 = \<lparr>errno = 0, stdout = js ''34'' @ [0x0A], stderr = []\<rparr>"
  define p4 where "p4 = \<lparr>errno = 0, stdout = js ''6.1.0-android14'' @ [0x0A], stderr = []\<rparr>"
  define ex :: "(unit \<times> jsstring list) exec" where
    "ex = logged (scripted
       [(js ''getprop ro.product.model'', Inr p1),
        (js ''getprop ro.build.version.release'', Inr p2),
        (js ''getprop ro.build.version.sdk'', Inr p3),
        (js ''uname -r'', Inr p4)])"
  define log where "log = [js ''getprop ro.product.model'', js ''getprop ro.build.version.release'',
              js ''getprop ro.build.version.sdk'', js ''uname -r'']"
  have cap: "ksuExec modelFailed = Some ex"
    by (simp add: modelFailed_def hostEnv_def ex_def p1_def p2_def p3_def p4_def)
  have calls: "ex (js ''getprop ro.product.model'') ((), []) = (Inr p1, ((), take 1 log))
      \<and> ex (js ''getprop ro.build.version.release'') ((), take 1 log) = (Inr p2, ((), take 2 log))
      \<and> ex (js ''getprop ro.build.version.sdk'') ((), take 2 log) = (Inr p3, ((), take 3 log))
      \<and> ex (js ''uname -r'') ((), take 3 log) = (Inr p4, ((), log))"
    using device_queries_distinct by (simp add: ex_def logged_def scripted_def log_def)
  from getDeviceStatus_fallbacks [OF cap, where w = "((), [])" and ?p1.0 = p1 and ?p2.0 = p2
      and ?p3.0 = p3 and ?p4.0 = p4 and ?w1.0 = "((), take 1 log)" and ?w2.0 = "((), take 2 log)"
      and ?w3.0 = "((), take 3 log)" and ?w4.0 = "((), log)",
      THEN conjunct2, THEN conjunct2, THEN conjunct1, THEN mp, OF calls]
  obtain d where run: "getDeviceStatus modelFailed ((), []) = (Inr d, ((), log))"
    and m: "model d = (if errno p1 = 0 then trim (stdout p1) else js ''Device'')"
    and a: "errno p2 = 0 \<and> errno p3 = 0
              \<longrightarrow> android d = trim (stdout p2) @ js '' (API '' @ trim (stdout p3) @ js '')''"
    and k: "kernel_di d = (if errno p4 = 0 then trim (stdout p4) else js ''Unknown'')"
    and s: "selinux_di d = js ''Enforcing''"
    by blast
  have "model d = js ''Device''"
    using m by (simp add: p1_def)
  moreover have "android d = js ''14'' @ js '' (API '' @ js ''34'' @ js '')''"
    using a by (simp add: p2_def p3_def eval_trim)
  then have "android d = js ''14 (API 34)''"
    by (simp add: js_def)
  moreover have "kernel_di d = js ''6.1.0-android14''"
    using k by (simp add: p4_def eval_trim)
  ultimately have "d = \<lparr>model = js ''Device'', android = js ''14 (API 34)'',
              kernel_di = js ''6.1.0-android14'', selinux_di = js ''Enforcing''\<rparr>"
    using s by (cases d) simp
  with run show ?thesis
    by (simp add: log_def)
qed

text \<open>
  On the first device the kernel query would exit with code 0, yet the rejected call of
  the model query ends the block: one command is recorded and the kernel stays \<open>Unknown\<close>.
\<close>

theorem rejected_query_counterexample:
  "fst (the (ksuExec modelRejected) (js ''uname -r'') ((), []))
     = Inr \<lparr>errno = 0, stdout = js ''6.1.0-android14'' @ [0x0A], stderr = []\<rparr>
   \<and> getDeviceStatus modelRejected ((), [])
     = (Inr \<lparr>model = js ''Device'', android = js ''14'', kernel_di = js ''Unknown'',
              selinux_di = js ''Enforcing''\<rparr>,
        ((), [js ''getprop ro.product.model'']))"
proof -
  have cap: "ksuExec modelRejected = Some (logged (scripted
     [(js ''getprop ro.product.model'', Inl (Error (js ''exec failed''))),
      (js ''getprop ro.build.version.release'', Inr \<lparr>errno = 0, stdout = js ''14'' @ [0x0A], stderr = []\<rparr>),
      (js ''getprop ro.build.version.sdk'', Inr \<lparr>errno = 0, stdout = js ''34'' @ [0x0A], stderr = []\<rparr>),
      (js ''uname -r'', Inr \<lparr>errno = 0, stdout = js ''6.1.0-android14'' @ [0x0A], stderr = []\<rparr>)]))"
    by (simp add: modelRejected_def hostEnv_def)
  have 1: "fst (the (ksuExec modelRejected) (js ''uname -r'') ((), []))
     = Inr \<lparr>errno = 0, stdout = js ''6.1.0-android14'' @ [0x0A], stderr = []\<rparr>"
    using device_queries_distinct by (simp add: cap logged_def scripted_def)
  have 2: "getDeviceStatus modelRejected ((), [])
     = (Inr \<lparr>model = js ''Device'', android = js ''14'', kernel_di = js ''Unknown'',
              selinux_di = js ''Enforcing''\<rparr>,
        ((), [js ''getprop ro.product.model'']))"
    by (simp add: getDeviceStatus_steps [OF cap] logged_def scripted_def)
  from 1 2 show ?thesis by blast
qed

text \<open>
  The exit code of the SDK query is not consulted, unlike those of the other three: on the
  third device the OS version is composed with the empty output of the failed query.
\<close>

lemma sdk_exit_code_unchecked:
  "fst (getDeviceStatus sdkFailed ((), []))
     = Inr \<lparr>model = js ''Pixel 8'', android = js ''14 (API )'',
             kernel_di = js ''6.1.0-android14'', selinux_di = js ''Enforcing''\<rparr>"
proof -
  have cap: "ksuExec sdkFailed = Some (logged (scripted
     [(js ''getprop ro.product.model'', Inr \<lparr>errno = 0, stdout = js ''Pixel 8'' @ [0x0A], stderr = []\<rparr>),
      (js ''getprop ro.build.version.release'', Inr \<lparr>errno = 0, stdout = js ''14'' @ [0x0A], stderr = []\<rparr>),
      (js ''getprop ro.build.version.sdk'', Inr \<lparr>errno = 1, stdout = [], stderr = js ''getprop: failed''\<rparr>),
      (js ''uname -r'', Inr \<lparr>errno = 0, stdout = js ''6.1.0-android14'' @ [0x0A], stderr = []\<rparr>)]))"
    by (simp add: sdkFailed_def hostEnv_def)
  have trims: "trim (js ''Pixel 8'' @ [0x0A]) = js ''Pixel 8''" "trim [] = ([] :: jsstring)"
    by code_simp+
  have composed: "js ''14'' @ js '' (API '' @ js '')'' = js ''14 (API )''"
    by (simp add: js_def)
  show ?thesis
    using device_queries_distinct
    by (simp add: getDeviceStatus_steps [OF cap] logged_def scripted_def eval_trim trims composed)
qed

section \<open>Properties of the accent colour resolver\<close>

lemma fetchSystemColor_steps:
  assumes "ksuExec E = Some ex"
  shows "fetchSystemColor E w =
     (case ex cmdSettings w of
        (Inl e, w1) \<Rightarrow> (Inr None, w1)
      | (Inr r1, w1) \<Rightarrow>
     (case settingsColor (stdout r1) of
        Some color \<Rightarrow> (Inr (Some color), w1)
      | None \<Rightarrow>
     (case ex cmdWallpaper w1 of
        (Inl e, w2) \<Rightarrow> (Inr None, w2)
      | (Inr r2, w2) \<Rightarrow>
     (case wallpaperColor (stdout r2) of
        Some color \<Rightarrow> (Inr (Some color), w2)
      | None \<Rightarrow>
     (case ex cmdOverlay w2 of
        (Inl e, w3) \<Rightarrow> (Inr None, w3)
      | (Inr r3, w3) \<Rightarrow>
     (case overlayColor (stdout r3) of
        Some color \<Rightarrow> (Inr (Some color), w3)
      | None \<Rightarrow>
     (case ex cmdThemeProp w3 of
        (Inl e, w4) \<Rightarrow> (Inr None, w4)
      | (Inr r4, w4) \<Rightarrow> (Inr (propColor (stdout r4)), w4))))))))"
  using assms
  by (simp add: fetchSystemColor_def io_bind_def io_catch_def io_return_def
      split: prod.splits sum.splits option.splits)

lemma commands_distinct:
  "cmdSettings \<noteq> cmdWallpaper" "cmdSettings \<noteq> cmdOverlay" "cmdSettings \<noteq> cmdThemeProp"
  "cmdWallpaper \<noteq> cmdOverlay" "cmdWallpaper \<noteq> cmdThemeProp" "cmdOverlay \<noteq> cmdThemeProp"
  by (simp_all add: cmdSettings_def cmdWallpaper_def cmdOverlay_def cmdThemeProp_def js_def)

lemma eval_null: "settingsColor (js ''null'' @ [0x0A]) = None"
  by code_simp

lemma eval_disabled: "overlayColor (js ''[ ] com.android.theme.color.green'' @ [0x0A]) = None"
  by code_simp

lemma eval_argb: "propColor (js ''AABBCCDD'' @ [0x0A]) = Some (js ''#AABBCCDD'')"
  by code_simp

lemma eval_siblings:
  "settingsColor (js ''source_color:AABBCCDD'') = Some (js ''#BBCCDD'')"
  "wallpaperColor (js ''mMainColor=0xAABBCCDD'') = Some (js ''#BBCCDD'')"
  by code_simp+

lemma firstSome_append:
  "list_all (\<lambda>x. f x = None) xs \<Longrightarrow> firstSome f (xs @ ys) = firstSome f ys"
  by (induction xs) simp_all

lemma overlayColor_first_enabled:
  assumes "overlayOut \<noteq> []"
    and "split 0x0A overlayOut = before @ line # after"
    and "list_all (\<lambda>l. lineColor l = None) before"
    and "includesJS line (js ''[x]'')"
    and "find (\<lambda>(p, c). includesJS line p) OVERLAY_COLOR_MAP = Some (pkg, color)"
  shows "overlayColor overlayOut = Some color"
  using assms by (simp add: overlayColor_def firstSome_append lineColor_def)

lemma no_output_no_color:
  "settingsColor [] = None" "wallpaperColor [] = None" "overlayColor [] = None"
  "propColor [] = None"
  by (simp_all add: settingsColor_def wallpaperColor_def matchedColor_def overlayColor_def
      propColor_def)

text \<open>
  C5 (as amended). Without the capability the result is \<open>null\<close>. With it, the four
  sources are asked in the order settings key, wallpaper dump, overlay list, theme
  property; the first one that yields a colour decides the result, and the host is left
  in the state after that source's command (no later command is issued). The overlay
  list decides only when the settings key and the wallpaper dump both yield no colour:
  then the result is the table colour of the first known package named in the first
  enabled line that names one. When the four outputs are empty the result is \<open>null\<close>,
  and so it is when a call is rejected, at whichever source.
\<close>

theorem fetchSystemColor_chain:
  assumes "ksuExec E = Some ex"
  shows "fetchSystemColor (E\<lparr>ksuExec := None\<rparr>) w = (Inr None, w)
   \<and> (ex cmdSettings w = (Inr r1, w1) \<and> settingsColor (stdout r1) = Some c
        \<longrightarrow> fetchSystemColor E w = (Inr (Some c), w1))
   \<and> (ex cmdSettings w = (Inr r1, w1) \<and> settingsColor (stdout r1) = None
        \<and> ex cmdWallpaper w1 = (Inr r2, w2) \<and> wallpaperColor (stdout r2) = Some c
        \<longrightarrow> fetchSystemColor E w = (Inr (Some c), w2))
   \<and> (ex cmdSettings w = (Inr r1, w1) \<and> settingsColor (stdout r1) = None
        \<and> ex cmdWallpaper w1 = (Inr r2, w2) \<and> wallpaperColor (stdout r2) = None
        \<and> ex cmdOverlay w2 = (Inr r3, w3) \<and> overlayColor (stdout r3) = Some c
        \<longrightarrow> fetchSystemColor E w = (Inr (Some c), w3))
   \<and> (ex cmdSettings w = (Inr r1, w1) \<and> settingsColor (stdout r1) = None
        \<and> ex cmdWallpaper w1 = (Inr r2, w2) \<and> wallpaperColor (stdout r2) = None
        \<and> ex cmdOverlay w2 = (Inr r3, w3) \<and> stdout r3 \<noteq> []
        \<and> split 0x0A (stdout r3) = before @ line # after
        \<and> list_all (\<lambda>l. lineColor l = None) before
        \<and> includesJS line (js ''[x]'')
        \<and> find (\<lambda>(p, c). includesJS line p) OVERLAY_COLOR_MAP = Some (pkg, color)
        \<longrightarrow> fetchSystemColor E w = (Inr (Some color), w3))
   \<and> (ex cmdSettings w = (Inr r1, w1) \<and> settingsColor (stdout r1) = None
        \<and> ex cmdWallpaper w1 = (Inr r2, w2) \<and> wallpaperColor (stdout r2) = None
        \<and> ex cmdOverlay w2 = (Inr r3, w3) \<and> overlayColor (stdout r3) = None
        \<and> ex cmdThemeProp w3 = (Inr r4, w4)
        \<longrightarrow> fetchSystemColor E w = (Inr (propColor (stdout r4)), w4))
   \<and> (ex cmdSettings w = (Inr r1, w1) \<and> stdout r1 = []
        \<and> ex cmdWallpaper w1 = (Inr r2, w2) \<and> stdout r2 = []
        \<and> ex cmdOverlay w2 = (Inr r3, w3) \<and> stdout r3 = []
        \<and> ex cmdThemeProp w3 = (Inr r4, w4) \<and> stdout r4 = []
        \<longrightarrow> fetchSystemColor E w = (Inr None, w4))
   \<and> (ex cmdSettings w = (Inl e, w1) \<longrightarrow> fetchSystemColor E w = (Inr None, w1))
   \<and> (ex cmdSettings w = (Inr r1, w1) \<and> settingsColor (stdout r1) = None
        \<and> ex cmdWallpaper w1 = (Inl e, w2)
        \<longrightarrow> fetchSystemColor E w = (Inr None, w2))
   \<and> (ex cmdSettings w = (Inr r1, w1) \<and> settingsColor (stdout r1) = None
        \<and> ex cmdWallpaper w1 = (Inr r2, w2) \<and> wallpaperColor (stdout r2) = None
        \<and> ex cmdOverlay w2 = (Inl e, w3)
        \<longrightarrow> fetchSystemColor E w = (Inr None, w3))
   \<and> (ex cmdSettings w = (Inr r1, w1) \<and> settingsColor (stdout r1) = None
        \<and> ex cmdWallpaper w1 = (Inr r2, w2) \<and> wallpaperColor (stdout r2) = None
        \<and> ex cmdOverlay w2 = (Inr r3, w3) \<and> overlayColor (stdout r3) = None
        \<and> ex cmdThemeProp w3 = (Inl e, w4)
        \<longrightarrow> fetchSystemColor E w = (Inr None, w4))"
proof -
  have absent: "fetchSystemColor (E\<lparr>ksuExec := None\<rparr>) w = (Inr None, w)"
    by (simp add: fetchSystemColor_def io_return_def)
  note steps = fetchSystemColor_steps [OF assms, of w]
  show ?thesis
    by (intro conjI impI absent; (elim conjE)?)
      (simp_all add: steps no_output_no_color overlayColor_first_enabled)
qed

text \<open>On the second device the overlay list decides, and three commands are recorded.\<close>

lemma eval_overlay_lines:
  "split 0x0A (js ''[ ] com.android.theme.color.black'' @ [0x0A]
               @ js ''[x] com.android.theme.color.green'' @ [0x0A])
     = [js ''[ ] com.android.theme.color.black'', js ''[x] com.android.theme.color.green'', []]"
  by code_simp

lemma eval_black_disabled: "lineColor (js ''[ ] com.android.theme.color.black'') = None"
  by code_simp

lemma eval_green_enabled:
  "includesJS (js ''[x] com.android.theme.color.green'') (js ''[x]'')"
  "find (\<lambda>(p, c). includesJS (js ''[x] com.android.theme.color.green'') p) OVERLAY_COLOR_MAP
     = Some (js ''com.android.theme.color.green'', js ''#3DDC84'')"
  by code_simp+

lemma eval_wallpaper:
  "wallpaperColor (js ''  mMainColor=0xff112233'' @ [0x0A]) = Some (js ''#112233'')"
  by code_simp

lemma eval_green_line:
  "overlayColor (js ''[x] com.android.theme.color.green'' @ [0x0A]) = Some (js ''#3DDC84'')"
  by code_simp

theorem fetchSystemColor_chain_witness:
  "fetchSystemColor overlayOnly ((), [])
     = (Inr (Some (js ''#3DDC84'')), ((), [cmdSettings, cmdWallpaper, cmdOverlay]))"
proof -
  define r1 where "r1 = \<lparr>errno = 0, stdout = js ''null'' @ [0x0A], stderr = []\<rparr>"
  define r2 where "r2 = \<lparr>errno = 1, stdout = [], stderr = ([] :: jsstring)\<rparr>"
  define r3 where "r3 = \<lparr>errno = 0,
         stdout = js ''[ ] com.android.theme.color.black'' @ [0x0A]
                  @ js ''[x] com.android.theme.color.green'' @ [0x0A], stderr = []\<rparr>"
  define r4 where "r4 = \<lparr>errno = 0, stdout = js ''#112233'' @ [0x0A], stderr = []\<rparr>"
  define ex :: "(unit \<times> jsstring list) exec" where
    "ex = logged (scripted [(cmdSettings, Inr r1), (cmdWallpaper, Inr r2), (cmdOverlay, Inr r3),
                            (cmdThemeProp, Inr r4)])"
  have cap: "ksuExec overlayOnly = Some ex"
    by (simp add: overlayOnly_def hostEnv_def ex_def r1_def r2_def r3_def r4_def)
  have calls: "ex cmdSettings ((), []) = (Inr r1, ((), [cmdSettings]))"
    "ex cmdWallpaper ((), [cmdSettings]) = (Inr r2, ((), [cmdSettings, cmdWallpaper]))"
    "ex cmdOverlay ((), [cmdSettings, cmdWallpaper])
       = (Inr r3, ((), [cmdSettings, cmdWallpaper, cmdOverlay]))"
    using commands_distinct by (simp_all add: ex_def logged_def scripted_def)
  have out3: "stdout r3 = js ''[ ] com.android.theme.color.black'' @ [0x0A]
                  @ js ''[x] com.android.theme.color.green'' @ [0x0A]"
    by (simp add: r3_def)
  have lines: "split 0x0A (stdout r3) = [js ''[ ] com.android.theme.color.black'']
        @ js ''[x] com.android.theme.color.green'' # [[]]"
    unfolding out3 eval_overlay_lines by simp
  have outs: "settingsColor (stdout r1) = None" "wallpaperColor (stdout r2) = None"
    "stdout r3 \<noteq> []"
    "list_all (\<lambda>l. lineColor l = None) [js ''[ ] com.android.theme.color.black'']"
    by (simp_all add: r1_def r2_def r3_def eval_null no_output_no_color eval_black_disabled)
  note third = fetchSystemColor_chain [OF cap, where w = "((), [])"
      and ?r1.0 = r1 and ?w1.0 = "((), [cmdSettings])"
      and ?r2.0 = r2 and ?w2.0 = "((), [cmdSettings, cmdWallpaper])"
      and ?r3.0 = r3 and ?w3.0 = "((), [cmdSettings, cmdWallpaper, cmdOverlay])"
      and before = "[js ''[ ] com.android.theme.color.black'']"
      and line = "js ''[x] com.android.theme.color.green''" and after = "[[]]"
      and pkg = "js ''com.android.theme.color.green''" and color = "js ''#3DDC84''",
      THEN conjunct2, THEN conjunct2, THEN conjunct2, THEN conjunct2, THEN conjunct1]
  show ?thesis
    by (rule third [THEN mp]) (intro conjI calls outs lines eval_green_enabled)
qed

text \<open>
  On the first device the settings key yields no colour and the overlay list has the
  green overlay enabled, yet the result is the wallpaper's colour and the overlay list is
  never asked for.
\<close>

theorem wallpaper_precedes_overlay_counterexample:
  "settingsColor (js ''null'' @ [0x0A]) = None
   \<and> overlayColor (js ''[x] com.android.theme.color.green'' @ [0x0A]) = Some (js ''#3DDC84'')
   \<and> fetchSystemColor wallpaperFirst ((), [])
       = (Inr (Some (js ''#112233'')), ((), [cmdSettings, cmdWallpaper]))"
proof -
  have cap: "ksuExec wallpaperFirst = Some (logged (scripted
     [(cmdSettings, Inr \<lparr>errno = 0, stdout = js ''null'' @ [0x0A], stderr = []\<rparr>),
      (cmdWallpaper, Inr \<lparr>errno = 0, stdout = js ''  mMainColor=0xff112233'' @ [0x0A],
                          stderr = []\<rparr>),
      (cmdOverlay, Inr \<lparr>errno = 0, stdout = js ''[x] com.android.theme.color.green'' @ [0x0A],
                        stderr = []\<rparr>),
      (cmdThemeProp, Inr \<lparr>errno = 0, stdout = [0x0A], stderr = []\<rparr>)]))"
    by (simp add: wallpaperFirst_def hostEnv_def)
  have "fetchSystemColor wallpaperFirst ((), [])
       = (Inr (Some (js ''#112233'')), ((), [cmdSettings, cmdWallpaper]))"
    unfolding fetchSystemColor_steps [OF cap]
    using commands_distinct
    by (simp add: logged_def scripted_def eval_null eval_wallpaper)
  then show ?thesis
    by (simp add: eval_null eval_green_line)
qed

text \<open>
  C6. The first two sources drop the first two digits of an 8-digit token; the fourth
  source accepts a token of 6 to 8 hexadecimal digits and returns it whole: with the
  property set to \<open>AABBCCDD\<close> the result is \<open>#AABBCCDD\<close>, eight digits with the alpha byte
  kept.
\<close>

theorem theme_property_keeps_alpha:
  "settingsColor (js ''source_color:AABBCCDD'') = Some (js ''#BBCCDD'')
   \<and> wallpaperColor (js ''mMainColor=0xAABBCCDD'') = Some (js ''#BBCCDD'')
   \<and> fetchSystemColor argbTheme () = (Inr (Some (js ''#AABBCCDD'')), ())"
proof -
  have ex: "ksuExec argbTheme = Some (scripted
     [(cmdSettings, Inr \<lparr>errno = 0, stdout = js ''null'' @ [0x0A], stderr = []\<rparr>),
      (cmdWallpaper, Inr \<lparr>errno = 1, stdout = [], stderr = []\<rparr>),
      (cmdOverlay, Inr \<lparr>errno = 0, stdout = js ''[ ] com.android.theme.color.green'' @ [0x0A],
                        stderr = []\<rparr>),
      (cmdThemeProp, Inr \<lparr>errno = 0, stdout = js ''AABBCCDD'' @ [0x0A], stderr = []\<rparr>)])"
    by (simp add: argbTheme_def hostEnv_def)
  have "fetchSystemColor argbTheme () = (Inr (Some (js ''#AABBCCDD'')), ())"
    unfolding fetchSystemColor_steps [OF ex]
    using commands_distinct
    by (simp add: scripted_def eval_null eval_disabled eval_argb wallpaperColor_def
        matchedColor_def)
  with eval_siblings show ?thesis
    by blast
qed

section \<open>Properties of the binding\<close>

text \<open>
  C9. The mock object has no member \<open>saveModules\<close>, \<open>openLink\<close>, \<open>fetchSystemColor\<close>,
  \<open>reboot\<close> or \<open>readLogs\<close>: bound in a development build or without the capability, a
  call of \<open>fetchSystemColor\<close> throws a \<open>TypeError\<close>, where the real object returns.
\<close>

theorem mock_lacks_members:
  "callMember (API True E) ''fetchSystemColor'' = Inl TypeError
   \<and> callMember (API False (E\<lparr>ksuExec := None\<rparr>)) ''fetchSystemColor'' = Inl TypeError
   \<and> callMember (API False (E\<lparr>ksuExec := Some ex\<rparr>)) ''fetchSystemColor'' = Inr 0
   \<and> filter (\<lambda>name. map_of MockAPI name = None) (map fst AppAPI)
       = [''saveModules'', ''openLink'', ''fetchSystemColor'', ''reboot'', ''readLogs'']"
  by (simp add: callMember_def API_def shouldUseMock_def MockAPI_def RealAPI_def AppAPI_def)

end
